theory Spec2Isabelle
  imports Main "HOL-Library.AList"
begin

section \<open>The Redis token driver of keystone\<close>

text \<open>
  A shallow embedding of \<^verbatim>\<open>keystone/token/backends/redis.py\<close>: the class \<^verbatim>\<open>Token\<close>
  with its helpers and the five operations of the driver interface, over a model of the
  Redis commands the driver issues. Exceptions are values of the type \<open>error\<close>, the
  backend is passed in and returned, and the wall clock of a call is an argument.
\<close>

section \<open>Python values\<close>

text \<open>
  The token payloads handled by the driver are Python dictionaries with string keys. A
  naive UTC \<^verbatim>\<open>datetime\<close> is the number of microseconds since the Unix epoch, a
  \<^verbatim>\<open>timedelta\<close> a number of microseconds. A dictionary is an association list read with
  \<open>map_of\<close>.
\<close>

datatype pyval =
    PNone
  | PBool bool
  | PInt int
  | PStr string
  | PTime int
  | PDict "(string \<times> pyval) list"
  | PList "pyval list"

type_synonym pydict = "(string \<times> pyval) list"

text \<open>
  The exceptions the driver can let escape. \<open>UnexpectedError\<close> is
  \<^verbatim>\<open>keystone.exception.UnexpectedError\<close>; \<open>UnsupportedTokenVersionException\<close> is the
  class of that name in \<^verbatim>\<open>keystone.token.provider\<close>; \<open>ResponseError\<close> is the
  client's error for a command applied to a key that holds the wrong kind of value.
\<close>

datatype error =
    TokenNotFound string
  | UnexpectedError
  | UnsupportedTokenVersionException pyval
  | KeyError string
  | TypeError
  | AttributeError
  | UnpicklingError
  | ResponseError

text \<open>Python truth value of an object (\<^verbatim>\<open>if not x\<close>).\<close>

fun truthy :: "pyval \<Rightarrow> bool" where
  "truthy PNone = False"
| "truthy (PBool b) = b"
| "truthy (PInt i) = (i \<noteq> 0)"
| "truthy (PStr s) = (s \<noteq> [])"
| "truthy (PTime t) = True"
| "truthy (PDict d) = (d \<noteq> [])"
| "truthy (PList l) = (l \<noteq> [])"

text \<open>\<^verbatim>\<open>d.get(k)\<close> on a dictionary: the value, or \<^verbatim>\<open>None\<close>.\<close>

definition dict_get :: "pydict \<Rightarrow> string \<Rightarrow> pyval" where
  "dict_get d k = (case map_of d k of None \<Rightarrow> PNone | Some v \<Rightarrow> v)"

text \<open>\<^verbatim>\<open>d.setdefault(k, v)\<close>: the dictionary after the call and the value returned.\<close>

definition dict_setdefault :: "pydict \<Rightarrow> string \<Rightarrow> pyval \<Rightarrow> pydict \<times> pyval" where
  "dict_setdefault d k v =
     (case map_of d k of None \<Rightarrow> (d @ [(k, v)], v) | Some v' \<Rightarrow> (d, v'))"

text \<open>\<^verbatim>\<open>d[k] = v\<close>.\<close>

definition dict_setitem :: "pydict \<Rightarrow> string \<Rightarrow> pyval \<Rightarrow> pydict" where
  "dict_setitem d k v = AList.update k v d"

text \<open>
  \<^verbatim>\<open>x[k]\<close> with a string key on any object: a dictionary raises \<^verbatim>\<open>KeyError\<close> for a
  missing key, every other object raises \<^verbatim>\<open>TypeError\<close>.
\<close>

fun subscript :: "pyval \<Rightarrow> string \<Rightarrow> error + pyval" where
  "subscript (PDict d) k = (case map_of d k of None \<Rightarrow> Inl (KeyError k) | Some v \<Rightarrow> Inr v)"
| "subscript v k = Inl TypeError"

text \<open>\<^verbatim>\<open>x[k1][k2]...\<close>, left to right.\<close>

fun subscript_path :: "pyval \<Rightarrow> string list \<Rightarrow> error + pyval" where
  "subscript_path v [] = Inr v"
| "subscript_path v (k # ks) =
     (case subscript v k of Inl e \<Rightarrow> Inl e | Inr v' \<Rightarrow> subscript_path v' ks)"

text \<open>\<^verbatim>\<open>x.get(k)\<close> on any object: only a dictionary has the method.\<close>

fun py_get :: "pyval \<Rightarrow> string \<Rightarrow> error + pyval" where
  "py_get (PDict d) k = Inr (dict_get d k)"
| "py_get v k = Inl AttributeError"

text \<open>\<^verbatim>\<open>a - b\<close> where \<open>b\<close> is a datetime: a timedelta when \<open>a\<close> is a datetime too.\<close>

fun py_sub :: "pyval \<Rightarrow> int \<Rightarrow> error + int" where
  "py_sub (PTime a) b = Inr (a - b)"
| "py_sub v b = Inl TypeError"

text \<open>
  \<^verbatim>\<open>_to_timestamp\<close> (line 56): \<^verbatim>\<open>calendar.timegm(dt.timetuple())\<close>. The time tuple has
  no microseconds, so the result is the whole second at or before the datetime. An
  object without \<^verbatim>\<open>timetuple\<close> raises \<^verbatim>\<open>AttributeError\<close>.
\<close>

fun to_timestamp :: "pyval \<Rightarrow> error + int" where
  "to_timestamp (PTime dt) = Inr (dt div 1000000)"
| "to_timestamp v = Inl AttributeError"

section \<open>Pickled bytes\<close>

text \<open>
  A byte string held by the backend either is the pickle of a value or is not a
  well-formed pickle at all. \<^verbatim>\<open>pickle.loads\<close> returns the value of the former and
  raises on the latter; \<open>UnpicklingError\<close> stands for whichever exception it raises.
\<close>

datatype bytes = Pickled pyval | Garbage string

definition pickle_dumps :: "pyval \<Rightarrow> bytes" where
  "pickle_dumps v = Pickled v"

fun pickle_loads :: "bytes \<Rightarrow> error + pyval" where
  "pickle_loads (Pickled v) = Inr v"
| "pickle_loads (Garbage s) = Inl UnpicklingError"

text \<open>\<^verbatim>\<open>map(pickle.loads, ret)\<close> (Python 2: the list is built at once, so the first
  member that fails to load raises).\<close>

fun map_loads :: "bytes list \<Rightarrow> error + pyval list" where
  "map_loads [] = Inr []"
| "map_loads (b # bs) =
     (case pickle_loads b of Inl e \<Rightarrow> Inl e
      | Inr v \<Rightarrow> (case map_loads bs of Inl e \<Rightarrow> Inl e | Inr vs \<Rightarrow> Inr (v # vs)))"

section \<open>Configuration and collaborators\<close>

text \<open>
  What the driver reads from outside its own file: \<^verbatim>\<open>CONF.trust.enabled\<close>, the value
  of \<^verbatim>\<open>token.default_expire_time()\<close> at the call, the constants \<^verbatim>\<open>token.provider.V2\<close>
  and \<^verbatim>\<open>V3\<close>, and \<^verbatim>\<open>str()\<close> of an object that is not a string (used by the
  \<^verbatim>\<open>%s\<close> of \<^verbatim>\<open>_get_key\<close>). The encoding of \<^verbatim>\<open>pickle\<close> is not modelled, so the
  order of the bytes of two sorted-set members, by which the server breaks ties of score,
  is taken from outside too (\<open>bytes_le a b\<close>: the bytes of \<open>a\<close> come first). They are
  parameters of the model.
\<close>

record env =
  trust_enabled :: bool
  default_expire_time :: pyval
  V2 :: string
  V3 :: string
  py_repr :: "pyval \<Rightarrow> string"
  bytes_le :: "bytes \<Rightarrow> bytes \<Rightarrow> bool"

definition py_str :: "env \<Rightarrow> pyval \<Rightarrow> string" where
  "py_str env v = (case v of PStr s \<Rightarrow> s | _ \<Rightarrow> py_repr env v)"

text \<open>\<^verbatim>\<open>_get_key\<close> (line 84): \<^verbatim>\<open>"keystone:%s:%s" % (type_, key)\<close>.\<close>

definition get_key :: "env \<Rightarrow> string \<Rightarrow> pyval \<Rightarrow> string" where
  "get_key env type key = ''keystone:'' @ type @ '':'' @ py_str env key"

definition revocation_list :: string where
  "revocation_list = ''keystone:token:revoked''"

section \<open>The Redis backend\<close>

text \<open>
  The server is one key space. A key holds a string with the time at which it expires,
  or a sorted set of members with their scores; a command for one kind applied to a key
  of the other kind is refused with an error. Sorted sets have no expiry here. Members
  of a sorted set are unique; \<open>ZRANGE\<close> returns them by ascending score, members of equal
  score by the order of their bytes.
\<close>

datatype rval = RString bytes int | RZSet "(bytes \<times> int) list"

type_synonym redis = "string \<Rightarrow> rval option"

definition live :: "int \<Rightarrow> redis \<Rightarrow> string \<Rightarrow> rval option" where
  "live now r k =
     (case r k of
        Some (RString b e) \<Rightarrow> if now < e then Some (RString b e) else None
      | x \<Rightarrow> x)"

text \<open>
  \<^verbatim>\<open>setex(name, value, time)\<close> of the client (the argument order of the driver is that
  of the legacy class \<^verbatim>\<open>redis.Redis\<close>, which \<^verbatim>\<open>redis.from_url\<close> returns). A timedelta is
  sent as \<^verbatim>\<open>time.seconds + time.days * 24 * 3600\<close>, the whole seconds at or below it.
  The server refuses a time to live that is not positive; otherwise it overwrites the
  key, whatever it held, and the string is gone for every command issued that many
  seconds after \<open>now\<close> or later.
\<close>

definition client_setex :: "int \<Rightarrow> redis \<Rightarrow> string \<Rightarrow> bytes \<Rightarrow> int \<Rightarrow> error + redis" where
  "client_setex now r k v ttl =
     (let seconds = ttl div 1000000
      in if seconds \<le> 0 then Inl ResponseError
         else Inr (r(k \<mapsto> RString v (now + seconds * 1000000))))"

definition client_get :: "int \<Rightarrow> redis \<Rightarrow> string \<Rightarrow> error + bytes option" where
  "client_get now r k =
     (case live now r k of
        None \<Rightarrow> Inr None
      | Some (RString b e) \<Rightarrow> Inr (Some b)
      | Some (RZSet z) \<Rightarrow> Inl ResponseError)"

definition client_delete :: "redis \<Rightarrow> string \<Rightarrow> redis" where
  "client_delete r k = r(k := None)"

definition zset_add :: "(bytes \<times> int) list \<Rightarrow> bytes \<Rightarrow> int \<Rightarrow> (bytes \<times> int) list" where
  "zset_add z m sc = filter (\<lambda>p. fst p \<noteq> m) z @ [(m, sc)]"

definition client_zadd :: "int \<Rightarrow> redis \<Rightarrow> string \<Rightarrow> bytes \<Rightarrow> int \<Rightarrow> error + redis" where
  "client_zadd now r k m sc =
     (case live now r k of
        None \<Rightarrow> Inr (r(k \<mapsto> RZSet [(m, sc)]))
      | Some (RZSet z) \<Rightarrow> Inr (r(k \<mapsto> RZSet (zset_add z m sc)))
      | Some (RString b e) \<Rightarrow> Inl ResponseError)"

text \<open>Index range of \<open>ZRANGE\<close>: both ends inclusive, negative indices from the end.\<close>

definition zrange_slice :: "'a list \<Rightarrow> int \<Rightarrow> int \<Rightarrow> 'a list" where
  "zrange_slice xs start stop =
     (let n = int (length xs);
          s = (if start < 0 then max 0 (n + start) else start);
          e = (if stop < 0 then n + stop else min stop (n - 1))
      in if e < s \<or> n \<le> s then [] else take (nat (e - s + 1)) (drop (nat s) xs))"

text \<open>The order of a sorted set: by score, then by the bytes of the member. \<open>zsort\<close> is
  insertion sort with that comparison.\<close>

fun zinsert ::
  "(bytes \<Rightarrow> bytes \<Rightarrow> bool) \<Rightarrow> bytes \<times> int \<Rightarrow> (bytes \<times> int) list \<Rightarrow> (bytes \<times> int) list" where
  "zinsert le x [] = [x]"
| "zinsert le x (y # ys) =
     (if snd x < snd y \<or> (snd x = snd y \<and> le (fst x) (fst y))
      then x # y # ys else y # zinsert le x ys)"

definition zsort :: "(bytes \<Rightarrow> bytes \<Rightarrow> bool) \<Rightarrow> (bytes \<times> int) list \<Rightarrow> (bytes \<times> int) list" where
  "zsort le z = foldr (zinsert le) z []"

definition client_zrange ::
  "(bytes \<Rightarrow> bytes \<Rightarrow> bool) \<Rightarrow> int \<Rightarrow> redis \<Rightarrow> string \<Rightarrow> int \<Rightarrow> int \<Rightarrow> error + bytes list" where
  "client_zrange le now r k start stop =
     (case live now r k of
        None \<Rightarrow> Inr []
      | Some (RZSet z) \<Rightarrow> Inr (zrange_slice (map fst (zsort le z)) start stop)
      | Some (RString b e) \<Rightarrow> Inl ResponseError)"

text \<open>\<open>ZREMRANGEBYSCORE key lo hi\<close> removes the members with \<open>lo \<le> score \<le> hi\<close>; a
  sorted set left empty is removed with its key.\<close>

definition client_zremrangebyscore ::
  "int \<Rightarrow> redis \<Rightarrow> string \<Rightarrow> int \<Rightarrow> int \<Rightarrow> error + redis" where
  "client_zremrangebyscore now r k lo hi =
     (case live now r k of
        None \<Rightarrow> Inr r
      | Some (RZSet z) \<Rightarrow>
          (let z' = filter (\<lambda>p. \<not> (lo \<le> snd p \<and> snd p \<le> hi)) z
           in Inr (if z' = [] then r(k := None) else r(k \<mapsto> RZSet z')))
      | Some (RString b e) \<Rightarrow> Inl ResponseError)"

text \<open>\<open>BGSAVE\<close> starts writing the data set to disk; the data set itself does not change.
  The server refuses it with an error while a background save is already running;
  whether one is running when the command arrives is the argument \<open>saving\<close>.\<close>

definition client_bgsave :: "bool \<Rightarrow> redis \<Rightarrow> error + redis" where
  "client_bgsave saving r = (if saving then Inl ResponseError else Inr r)"

text \<open>The sorted set that a command issued at \<open>now\<close> finds under a key: empty when the
  key is absent or holds a string.\<close>

definition zset_at :: "int \<Rightarrow> redis \<Rightarrow> string \<Rightarrow> (bytes \<times> int) list" where
  "zset_at now r k = (case live now r k of Some (RZSet z) \<Rightarrow> z | _ \<Rightarrow> [])"

section \<open>The driver's helpers (lines 87 to 110)\<close>

definition p_set :: "int \<Rightarrow> redis \<Rightarrow> string \<Rightarrow> pyval \<Rightarrow> int \<Rightarrow> error + redis" where
  "p_set now r key val ttl = client_setex now r key (pickle_dumps val) ttl"

definition p_get :: "int \<Rightarrow> redis \<Rightarrow> string \<Rightarrow> error + pyval" where
  "p_get now r key =
     (case client_get now r key of
        Inl e \<Rightarrow> Inl e
      | Inr None \<Rightarrow> Inr PNone
      | Inr (Some b) \<Rightarrow> pickle_loads b)"

definition p_zadd :: "int \<Rightarrow> redis \<Rightarrow> string \<Rightarrow> int \<Rightarrow> pyval \<Rightarrow> error + redis" where
  "p_zadd now r key score val = client_zadd now r key (pickle_dumps val) score"

definition p_zrange ::
  "env \<Rightarrow> int \<Rightarrow> redis \<Rightarrow> string \<Rightarrow> int \<Rightarrow> int \<Rightarrow> error + pyval list" where
  "p_zrange env now r key start stop =
     (case client_zrange (bytes_le env) now r key start stop of
        Inl e \<Rightarrow> Inl e
      | Inr ret \<Rightarrow> map_loads ret)"

definition remove_expired :: "int \<Rightarrow> redis \<Rightarrow> string \<Rightarrow> error + redis" where
  "remove_expired now r key =
     (case to_timestamp (PTime now) of
        Inl e \<Rightarrow> Inl e
      | Inr current_time \<Rightarrow> client_zremrangebyscore now r key 0 current_time)"

section \<open>The driver interface (lines 114 to 229)\<close>

text \<open>
  Every operation takes the wall clock \<open>now\<close> of the call, the clock of the driver and
  of the server alike. \<^verbatim>\<open>get_token\<close> only reads; the other operations return the backend
  as they leave it, also when they raise.
\<close>

definition get_token :: "env \<Rightarrow> int \<Rightarrow> string \<Rightarrow> redis \<Rightarrow> error + pyval" where
  "get_token env now token_id r =
     (if token_id = [] then Inl (TokenNotFound [])
      else case p_get now r (get_key env ''token'' (PStr token_id)) of
             Inl e \<Rightarrow> Inl e
           | Inr ret \<Rightarrow> if \<not> truthy ret then Inl (TokenNotFound token_id) else Inr ret)"

text \<open>
  The caller's \<^verbatim>\<open>data\<close> is a reference to a dictionary object. The heap is the list
  of the dictionary objects allocated so far, a reference is an index into it.
  \<^verbatim>\<open>copy.deepcopy\<close> allocates a new object with the same contents (the values inside
  a dictionary are held by value, so a copy of the contents is a deep copy).
\<close>

type_synonym heap = "pydict list"

definition deepcopy :: "heap \<Rightarrow> nat \<Rightarrow> heap \<times> nat" where
  "deepcopy h a = (h @ [h ! a], length h)"

text \<open>The trustee of a trust-scoped token (lines 152 to 162).\<close>

definition trustee_of :: "env \<Rightarrow> pydict \<Rightarrow> error + pyval" where
  "trustee_of env d =
     (case subscript (PDict d) ''token_data'' of
        Inl e \<Rightarrow> Inl e
      | Inr token_data \<Rightarrow>
          (case subscript (PDict d) ''token_version'' of
             Inl e \<Rightarrow> Inl e
           | Inr version \<Rightarrow>
               if version = PStr (V2 env)
               then subscript_path token_data [''access'', ''trust'', ''trustee_user_id'']
               else if version = PStr (V3 env)
               then subscript_path token_data [''OS-TRUST:trust'', ''trustee_user_id'']
               else Inl (UnsupportedTokenVersionException (dict_get d ''token_version''))))"

text \<open>Lines 138 and 139, on the copied dictionary.\<close>

definition set_user_id :: "pydict \<Rightarrow> error + pydict" where
  "set_user_id d =
     (if \<not> truthy (dict_get d ''user_id'')
      then (case subscript_path (PDict d) [''user'', ''id''] of
              Inl e \<Rightarrow> Inl e
            | Inr uid \<Rightarrow> Inr (dict_setitem d ''user_id'' uid))
      else Inr d)"

text \<open>Lines 151 to 167: the index entry under the trustee.\<close>

definition index_trustee ::
  "env \<Rightarrow> int \<Rightarrow> pydict \<Rightarrow> int \<Rightarrow> string \<Rightarrow> redis \<Rightarrow> error + redis" where
  "index_trustee env now d score token_id r =
     (if trust_enabled env \<and> truthy (dict_get d ''trust_id'')
      then (case trustee_of env d of
              Inl e \<Rightarrow> Inl e
            | Inr trustee_user_id \<Rightarrow>
                p_zadd now r (get_key env ''user'' trustee_user_id) score (PStr token_id))
      else Inr r)"

text \<open>
  \<^verbatim>\<open>create_token\<close> (lines 128 to 169). \<open>data0\<close> is the caller's reference; \<open>data\<close> is
  the reference to the copy, the only object written. The result is the returned
  reference (or the exception), the heap and the backend.
\<close>

definition create_token ::
  "env \<Rightarrow> int \<Rightarrow> string \<Rightarrow> nat \<Rightarrow> heap \<times> redis \<Rightarrow> (error + nat) \<times> heap \<times> redis" where
  "create_token env now token_id data0 w =
     (let h = fst w; r = snd w;
          (h1, data) = deepcopy h data0;
          (d2, expires) = dict_setdefault (h1 ! data) ''expires'' (default_expire_time env);
          h2 = h1[data := d2];
          current_time = now
      in case set_user_id (h2 ! data) of
           Inl e \<Rightarrow> (Inl e, h2, r)
         | Inr d3 \<Rightarrow>
             (let h3 = h2[data := d3]
              in case py_sub expires current_time of
                   Inl e \<Rightarrow> (Inl e, h3, r)
                 | Inr ttl \<Rightarrow>
                     (case p_set now r (get_key env ''token'' (PStr token_id))
                             (PDict (h3 ! data)) ttl of
                        Inl e \<Rightarrow> (Inl e, h3, r)
                      | Inr r1 \<Rightarrow>
                          (case to_timestamp expires of
                             Inl e \<Rightarrow> (Inl e, h3, r1)
                           | Inr score \<Rightarrow>
                               (case p_zadd now r1
                                       (get_key env ''user'' (dict_get (h3 ! data) ''user_id''))
                                       score (PStr token_id) of
                                  Inl e \<Rightarrow> (Inl e, h3, r1)
                                | Inr r2 \<Rightarrow>
                                    (case index_trustee env now (h3 ! data) score token_id r2 of
                                       Inl e \<Rightarrow> (Inl e, h3, r2)
                                     | Inr r3 \<Rightarrow> (Inr data, h3, r3)))))))"

text \<open>\<^verbatim>\<open>delete_token\<close> (lines 171 to 183); \<open>saving\<close> tells whether a background save is
  running when the driver asks for one.\<close>

definition delete_token ::
  "env \<Rightarrow> int \<Rightarrow> bool \<Rightarrow> string \<Rightarrow> redis \<Rightarrow> (error + unit) \<times> redis" where
  "delete_token env now saving token_id r =
     (case get_token env now token_id r of
        Inl e \<Rightarrow> (Inl e, r)
      | Inr data \<Rightarrow>
          (let r1 = client_delete r (get_key env ''token'' (PStr token_id))
           in case subscript data ''expires'' of
                Inl e \<Rightarrow> (Inl e, r1)
              | Inr expires \<Rightarrow>
                  (case to_timestamp expires of
                     Inl e \<Rightarrow> (Inl e, r1)
                   | Inr score \<Rightarrow>
                       (case p_zadd now r1 revocation_list score data of
                          Inl e \<Rightarrow> (Inl e, r1)
                        | Inr r2 \<Rightarrow>
                            (case client_bgsave saving r2 of
                               Inl e \<Rightarrow> (Inl e, r2)
                             | Inr r3 \<Rightarrow> (Inr (), r3))))))"

text \<open>
  The three filters of \<^verbatim>\<open>list_tokens\<close> (lines 204 to 216) on one fetched record:
  \<open>Inr True\<close> when the token id is appended, \<open>Inr False\<close> for \<^verbatim>\<open>continue\<close>. A filter
  argument is \<open>None\<close> or a string, and is applied when it is a non-empty string.
\<close>

definition supplied :: "string option \<Rightarrow> bool" where
  "supplied x = (case x of None \<Rightarrow> False | Some s \<Rightarrow> s \<noteq> [])"

definition field_differs :: "pyval \<Rightarrow> string \<Rightarrow> string option \<Rightarrow> error + bool" where
  "field_differs token_data k x =
     (case x of
        None \<Rightarrow> Inr False
      | Some s \<Rightarrow>
          if s = [] then Inr False
          else (case py_get token_data k of
                  Inl e \<Rightarrow> Inl e
                | Inr v \<Rightarrow> Inr (v \<noteq> PStr s)))"

definition consumer_differs :: "pyval \<Rightarrow> string option \<Rightarrow> error + bool" where
  "consumer_differs token_data consumer_id =
     (if supplied consumer_id
      then (case subscript_path token_data [''token_data'', ''token'', ''OS-OAUTH1''] of
              Inl (KeyError k) \<Rightarrow> Inr True
            | Inl e \<Rightarrow> Inl e
            | Inr oauth \<Rightarrow> field_differs oauth ''consumer_id'' consumer_id)
      else Inr False)"

definition token_selected ::
  "string option \<Rightarrow> string option \<Rightarrow> string option \<Rightarrow> pyval \<Rightarrow> error + bool" where
  "token_selected tenant_id trust_id consumer_id token_data =
     (case field_differs token_data ''tenant_id'' tenant_id of
        Inl e \<Rightarrow> Inl e
      | Inr True \<Rightarrow> Inr False
      | Inr False \<Rightarrow>
          (case field_differs token_data ''trust_id'' trust_id of
             Inl e \<Rightarrow> Inl e
           | Inr True \<Rightarrow> Inr False
           | Inr False \<Rightarrow>
               (case consumer_differs token_data consumer_id of
                  Inl e \<Rightarrow> Inl e
                | Inr True \<Rightarrow> Inr False
                | Inr False \<Rightarrow> Inr True)))"

text \<open>The \<^verbatim>\<open>for\<close> loop of \<^verbatim>\<open>list_tokens\<close> (lines 197 to 220); it only reads the backend.\<close>

fun list_tokens_loop ::
  "env \<Rightarrow> int \<Rightarrow> redis \<Rightarrow> string option \<Rightarrow> string option \<Rightarrow> string option \<Rightarrow>
   pyval list \<Rightarrow> pyval list \<Rightarrow> error + pyval list" where
  "list_tokens_loop env now r tenant_id trust_id consumer_id [] tokens = Inr tokens"
| "list_tokens_loop env now r tenant_id trust_id consumer_id (token_id # rest) tokens =
     (case p_get now r (get_key env ''token'' token_id) of
        Inl e \<Rightarrow> Inl e
      | Inr token_data \<Rightarrow>
          if \<not> truthy token_data
          then list_tokens_loop env now r tenant_id trust_id consumer_id rest tokens
          else (case token_selected tenant_id trust_id consumer_id token_data of
                  Inl e \<Rightarrow> Inl e
                | Inr False \<Rightarrow>
                    list_tokens_loop env now r tenant_id trust_id consumer_id rest tokens
                | Inr True \<Rightarrow>
                    list_tokens_loop env now r tenant_id trust_id consumer_id rest
                      (tokens @ [token_id])))"

definition list_tokens ::
  "env \<Rightarrow> int \<Rightarrow> string \<Rightarrow> string option \<Rightarrow> string option \<Rightarrow> string option \<Rightarrow> redis \<Rightarrow>
   (error + pyval list) \<times> redis" where
  "list_tokens env now user_id tenant_id trust_id consumer_id r =
     (let skey = get_key env ''user'' (PStr user_id)
      in case remove_expired now r skey of
           Inl e \<Rightarrow> (Inl e, r)
         | Inr r1 \<Rightarrow>
             (case p_zrange env now r1 skey 0 (- 1) of
                Inl e \<Rightarrow> (Inl e, r1)
              | Inr user_tokens \<Rightarrow>
                  (list_tokens_loop env now r1 tenant_id trust_id consumer_id user_tokens [],
                   r1)))"

definition list_revoked_tokens ::
  "env \<Rightarrow> int \<Rightarrow> redis \<Rightarrow> (error + pyval list) \<times> redis" where
  "list_revoked_tokens env now r =
     (case remove_expired now r revocation_list of
        Inl e \<Rightarrow> (Inl e, r)
      | Inr r1 \<Rightarrow> (p_zrange env now r1 revocation_list 0 (- 1), r1))"

section \<open>Example data\<close>

text \<open>Concrete configurations and payloads on which the theorems below are instantiated.\<close>

definition example_env :: env where
  "example_env = \<lparr>trust_enabled = True, default_expire_time = PTime 86400000000,
     V2 = ''v2.0'', V3 = ''v3.0'', py_repr = (\<lambda>v. ''None''), bytes_le = (\<lambda>a b. True)\<rparr>"

definition example_token :: pydict where
  "example_token = [(''id'', PStr ''t1''), (''expires'', PTime 3600500000),
     (''user'', PDict [(''id'', PStr ''u1'')])]"

text \<open>A token that expires two and a half seconds after the epoch.\<close>

definition example_short_token :: pydict where
  "example_short_token = [(''id'', PStr ''t3''), (''expires'', PTime 2500000),
     (''user_id'', PStr ''u1'')]"

text \<open>Trust-scoped tokens: a version 3 payload whose trustee is \<open>u2\<close> (with any version
  string), and a version 2 payload whose trustee is \<open>u3\<close>.\<close>

definition example_trust_token_v2 :: pydict where
  "example_trust_token_v2 = [(''id'', PStr ''t4''), (''expires'', PTime 7200000000),
     (''user_id'', PStr ''u1''), (''trust_id'', PStr ''tr1''), (''token_version'', PStr ''v2.0''),
     (''token_data'', PDict [(''access'', PDict [(''trust'',
         PDict [(''trustee_user_id'', PStr ''u3'')])])])]"

definition example_trust_token :: "string \<Rightarrow> pydict" where
  "example_trust_token version = [(''id'', PStr ''t2''), (''expires'', PTime 7200000000),
     (''user_id'', PStr ''u1''), (''trust_id'', PStr ''tr1''), (''token_version'', PStr version),
     (''token_data'', PDict [(''OS-TRUST:trust'', PDict [(''trustee_user_id'', PStr ''u2'')])])]"

text \<open>A backend with a user index of two entries, of which only \<open>b\<close> has a primary record,
  and a revocation list of two entries.\<close>

definition example_index :: redis where
  "example_index =
     [''keystone:user:u1'' \<mapsto> RZSet [(Pickled (PStr ''a''), 3), (Pickled (PStr ''b''), 10)],
      ''keystone:token:b'' \<mapsto> RString (Pickled (PDict [(''id'', PStr ''b'')])) 10500000,
      ''keystone:token:revoked'' \<mapsto>
         RZSet [(Pickled (PDict [(''id'', PStr ''c'')]), 4),
                (Pickled (PDict [(''id'', PStr ''d'')]), 9)]]"

text \<open>A user index whose only member is not a pickle.\<close>

definition example_corrupt_index :: redis where
  "example_corrupt_index = [''keystone:user:u1'' \<mapsto> RZSet [(Garbage ''invalid'', 100)]]"

text \<open>A user index of three tokens: \<open>x\<close> of tenant \<open>p1\<close> with consumer \<open>c1\<close>, \<open>y\<close> of tenant
  \<open>p1\<close> without the OAuth structure, \<open>z\<close> of tenant \<open>p2\<close> with consumer \<open>c1\<close>.\<close>

definition example_filter_index :: redis where
  "example_filter_index =
     [''keystone:user:u1'' \<mapsto>
        RZSet [(Pickled (PStr ''x''), 10), (Pickled (PStr ''y''), 20), (Pickled (PStr ''z''), 30)],
      ''keystone:token:x'' \<mapsto>
        RString (Pickled (PDict [(''tenant_id'', PStr ''p1''),
           (''token_data'', PDict [(''token'', PDict [(''OS-OAUTH1'',
               PDict [(''consumer_id'', PStr ''c1'')])])])])) 10000000,
      ''keystone:token:y'' \<mapsto>
        RString (Pickled (PDict [(''tenant_id'', PStr ''p1'')])) 20000000,
      ''keystone:token:z'' \<mapsto>
        RString (Pickled (PDict [(''tenant_id'', PStr ''p2''),
           (''token_data'', PDict [(''token'', PDict [(''OS-OAUTH1'',
               PDict [(''consumer_id'', PStr ''c1'')])])])])) 30000000]"

section \<open>Basic facts\<close>

lemmas value_defs =
  dict_get_def dict_setdefault_def dict_setitem_def pickle_dumps_def get_key_def py_str_def
  revocation_list_def

lemmas backend_defs =
  live_def client_setex_def client_get_def client_delete_def client_zadd_def client_zrange_def
  client_zremrangebyscore_def client_bgsave_def zset_add_def zrange_slice_def zsort_def
  p_set_def p_get_def p_zadd_def p_zrange_def remove_expired_def

lemmas create_defs =
  create_token_def deepcopy_def set_user_id_def index_trustee_def trustee_of_def

lemmas list_defs =
  list_tokens_def list_revoked_tokens_def token_selected_def field_differs_def
  consumer_differs_def supplied_def

lemmas example_defs =
  example_env_def example_token_def example_trust_token_def example_trust_token_v2_def
  example_short_token_def

text \<open>The three kinds of key never coincide, except that the primary key of the token id
  \<open>revoked\<close> is the key of the revocation list.\<close>

lemma key_token_user: "get_key env ''token'' a \<noteq> get_key env ''user'' b"
  by (simp add: get_key_def)

lemma key_user_revoked: "get_key env ''user'' b \<noteq> revocation_list"
  by (simp add: get_key_def revocation_list_def)

lemma key_token_revoked:
  "get_key env ''token'' (PStr t) = revocation_list \<longleftrightarrow> t = ''revoked''"
  by (simp add: get_key_def revocation_list_def py_str_def)

lemma get_key_trust_update [simp]:
  "get_key (env\<lparr>trust_enabled := b\<rparr>) = get_key env"
  by (auto simp: get_key_def py_str_def fun_eq_iff split: pyval.splits)

lemma zrange_slice_all: "zrange_slice xs 0 (- 1) = xs"
  by (simp add: zrange_slice_def Let_def)

subsection \<open>Dictionaries\<close>

lemma dict_get_setdefault:
  "dict_get (fst (dict_setdefault d k v)) k' =
     (if k' = k then snd (dict_setdefault d k v) else dict_get d k')"
  by (auto simp: dict_get_def dict_setdefault_def split: option.splits)

lemma dict_get_setitem:
  "dict_get (dict_setitem d k v) k' = (if k' = k then v else dict_get d k')"
  by (simp add: dict_get_def dict_setitem_def update_conv')

lemma map_of_setdefault:
  "k' \<noteq> k \<Longrightarrow> map_of (fst (dict_setdefault d k v)) k' = map_of d k'"
  by (auto simp: dict_setdefault_def map_add_def split: option.splits)

lemma map_of_setitem:
  "map_of (dict_setitem d k v) = (map_of d)(k \<mapsto> v)"
  by (simp add: dict_setitem_def update_conv')

lemma set_user_id_get:
  "set_user_id d2 = Inr d3 \<Longrightarrow> k \<noteq> ''user_id'' \<Longrightarrow> dict_get d3 k = dict_get d2 k"
  by (auto simp: set_user_id_def dict_get_setitem split: if_splits sum.splits)

lemma set_user_id_map_of:
  "set_user_id d2 = Inr d3 \<Longrightarrow> k \<noteq> ''user_id'' \<Longrightarrow> map_of d3 k = map_of d2 k"
  by (auto simp: set_user_id_def map_of_setitem split: if_splits sum.splits)

lemma trustee_of_Inr:
  assumes "trustee_of env d = Inr trustee"
  shows "\<exists>token_data.
           map_of d ''token_data'' = Some token_data
         \<and> (dict_get d ''token_version'' = PStr (V2 env)
            \<or> dict_get d ''token_version'' = PStr (V3 env))
         \<and> (if dict_get d ''token_version'' = PStr (V2 env)
            then subscript_path token_data [''access'', ''trust'', ''trustee_user_id'']
            else subscript_path token_data [''OS-TRUST:trust'', ''trustee_user_id''])
           = Inr trustee"
  using assms
  by (auto simp: trustee_of_def dict_get_def split: option.splits if_splits)

lemma set_user_id_owner:
  assumes "set_user_id d2 = Inr d3"
  shows "if truthy (dict_get d2 ''user_id'') then dict_get d3 ''user_id'' = dict_get d2 ''user_id''
         else subscript_path (PDict d2) [''user'', ''id''] = Inr (dict_get d3 ''user_id'')"
  using assms
  by (auto simp: set_user_id_def dict_get_setitem split: if_splits sum.splits)

subsection \<open>Sorted sets\<close>

lemma set_zinsert: "set (zinsert le x ys) = insert x (set ys)"
  by (induction ys) auto

lemma set_zsort: "set (zsort le z) = set z"
  by (induction z) (simp_all add: zsort_def set_zinsert)

lemma zsort_Nil [simp]: "zsort le [] = []"
  by (simp add: zsort_def)

lemma p_set_Inr:
  "p_set now r k v ttl = Inr r1 \<longleftrightarrow>
     0 < ttl div 1000000
     \<and> r1 = r(k \<mapsto> RString (Pickled v) (now + ttl div 1000000 * 1000000))"
  by (auto simp: p_set_def client_setex_def pickle_dumps_def Let_def)

lemma zset_add_entry:
  "filter (\<lambda>p. fst p = m) (zset_add z m sc) = [(m, sc)]"
  by (induction z) (auto simp: zset_add_def)

lemma zset_add_mem: "(m, sc) \<in> set (zset_add z m sc)"
  by (simp add: zset_add_def)

lemma p_zadd_Inr:
  assumes "p_zadd now r k sc v = Inr r'"
  shows "\<exists>z. r' k = Some (RZSet z) \<and> (Pickled v, sc) \<in> set z
             \<and> filter (\<lambda>p. fst p = Pickled v) z = [(Pickled v, sc)]"
    and "k' \<noteq> k \<Longrightarrow> r' k' = r k'"
  using assms
  by (auto simp: p_zadd_def client_zadd_def pickle_dumps_def zset_add_entry zset_add_mem
      split: option.splits rval.splits)

lemma p_zadd_keeps:
  assumes "p_zadd now r k sc v = Inr r'" and "r k' = Some (RZSet z)" and "(m, s) \<in> set z"
    and "k' = k \<longrightarrow> m = Pickled v \<longrightarrow> s = sc"
  shows "\<exists>z'. r' k' = Some (RZSet z') \<and> (m, s) \<in> set z'"
  using assms
  by (auto simp: p_zadd_def client_zadd_def pickle_dumps_def zset_add_def live_def
      split: option.splits rval.splits if_splits)

subsection \<open>The successful run of \<^verbatim>\<open>create_token\<close>\<close>

lemma create_token_frame:
  "a < length h \<Longrightarrow> fst (snd (create_token env now token_id data0 (h, r))) ! a = h ! a"
  by (simp add: create_token_def deepcopy_def Let_def nth_append split: sum.splits prod.splits)

lemma create_token_InrE:
  assumes "create_token env now token_id data0 (h, r) = (Inr d, h', r')" and "data0 < length h"
  obtains d2 d3 E r1 r2 where
    "dict_setdefault (h ! data0) ''expires'' (default_expire_time env) = (d2, PTime E)"
    "set_user_id d2 = Inr d3"
    "d = length h" "h' = h @ [d3]"
    "p_set now r (get_key env ''token'' (PStr token_id)) (PDict d3) (E - now) = Inr r1"
    "p_zadd now r1 (get_key env ''user'' (dict_get d3 ''user_id'')) (E div 1000000)
        (PStr token_id) = Inr r2"
    "index_trustee env now d3 (E div 1000000) token_id r2 = Inr r'"
  using assms
  by (auto simp: create_token_def deepcopy_def Let_def nth_append
      split: sum.splits prod.splits elim!: py_sub.elims)

lemma index_trustee_frame:
  "index_trustee env now d sc token_id r = Inr r' \<Longrightarrow>
   r' (get_key env ''token'' k) = r (get_key env ''token'' k)"
  by (auto simp: index_trustee_def key_token_user split: if_splits sum.splits
      intro: p_zadd_Inr(2))

lemma create_token_stored:
  assumes "data0 < length h" and "create_token env now token_id data0 (h, r) = (Inr d, h', r')"
  shows "\<exists>E. dict_get (h' ! d) ''expires'' = PTime E \<and>
             snd (dict_setdefault (h ! data0) ''expires'' (default_expire_time env)) = PTime E \<and>
             0 < (E - now) div 1000000 \<and>
             r' (get_key env ''token'' (PStr token_id))
               = Some (RString (Pickled (PDict (h' ! d)))
                   (now + (E - now) div 1000000 * 1000000))"
proof -
  from assms(2,1) obtain d2 d3 E r1 r2 where
    sd: "dict_setdefault (h ! data0) ''expires'' (default_expire_time env) = (d2, PTime E)"
    and su: "set_user_id d2 = Inr d3"
    and d: "d = length h" "h' = h @ [d3]"
    and ps: "p_set now r (get_key env ''token'' (PStr token_id)) (PDict d3) (E - now) = Inr r1"
    and z: "p_zadd now r1 (get_key env ''user'' (dict_get d3 ''user_id'')) (E div 1000000)
        (PStr token_id) = Inr r2"
    and t: "index_trustee env now d3 (E div 1000000) token_id r2 = Inr r'"
    by (rule create_token_InrE)
  have "dict_get d2 ''expires'' = PTime E"
    using dict_get_setdefault[of "h ! data0" "''expires''" "default_expire_time env" "''expires''"] sd
    by simp
  then have e3: "dict_get d3 ''expires'' = PTime E"
    using set_user_id_get[OF su, of "''expires''"] by simp
  from ps have pos: "0 < (E - now) div 1000000"
    and r1: "r1 (get_key env ''token'' (PStr token_id))
               = Some (RString (Pickled (PDict d3)) (now + (E - now) div 1000000 * 1000000))"
    by (simp_all add: p_set_Inr)
  have "r2 (get_key env ''token'' (PStr token_id))
          = Some (RString (Pickled (PDict d3)) (now + (E - now) div 1000000 * 1000000))"
    using p_zadd_Inr(2)[OF z, of "get_key env ''token'' (PStr token_id)"] r1
    by (simp add: key_token_user)
  then have "r' (get_key env ''token'' (PStr token_id))
          = Some (RString (Pickled (PDict d3)) (now + (E - now) div 1000000 * 1000000))"
    using index_trustee_frame[OF t] by simp
  with e3 sd d pos show ?thesis by simp
qed

lemma get_token_live:
  assumes "r (get_key env ''token'' (PStr token_id)) = Some (RString (Pickled v) E)"
    and "token_id \<noteq> []" and "truthy v"
  shows "t < E \<Longrightarrow> get_token env t token_id r = Inr v"
    and "E \<le> t \<Longrightarrow> get_token env t token_id r = Inl (TokenNotFound token_id)"
  using assms by (simp_all add: get_token_def p_get_def client_get_def live_def)

subsection \<open>Unpickling\<close>

lemma map_loads_map: "map_loads (map Pickled vs) = Inr vs"
  by (induction vs) auto

lemma map_loads_InrD: "map_loads bs = Inr vs \<Longrightarrow> bs = map Pickled vs"
proof (induction bs arbitrary: vs)
  case Nil
  then show ?case by simp
next
  case (Cons b bs)
  then show ?case
    by (cases b) (auto split: sum.splits)
qed

lemma map_loads_Inr: "map_loads bs = Inr vs \<longleftrightarrow> bs = map Pickled vs"
  using map_loads_map map_loads_InrD by blast

lemma map_loads_garbage: "Garbage s \<in> set bs \<Longrightarrow> map_loads bs = Inl UnpicklingError"
proof (induction bs)
  case Nil
  then show ?case by simp
next
  case (Cons b bs)
  then show ?case
    by (cases b) (auto split: sum.splits)
qed

lemma map_loads_total:
  "(\<forall>b\<in>set bs. \<exists>v. b = Pickled v) \<Longrightarrow> \<exists>vs. map_loads bs = Inr vs"
proof (induction bs)
  case Nil
  then show ?case by simp
next
  case (Cons b bs)
  then show ?case by (cases b) (auto split: sum.splits)
qed


subsection \<open>The read paths\<close>

lemma remove_expired_Inr:
  assumes "remove_expired now r k = Inr r1"
  shows "zset_at now r1 k
           = filter (\<lambda>p. \<not> (0 \<le> snd p \<and> snd p \<le> now div 1000000)) (zset_at now r k)"
    and "k' \<noteq> k \<Longrightarrow> r1 k' = r k'"
  using assms
  by (auto simp: remove_expired_def client_zremrangebyscore_def zset_at_def live_def Let_def
      split: option.splits rval.splits if_splits)

lemma p_zrange_Inr:
  assumes "p_zrange env now r k 0 (- 1) = Inr vs"
  shows "map Pickled vs = map fst (zsort (bytes_le env) (zset_at now r k))"
  using assms
  by (auto simp: p_zrange_def client_zrange_def zset_at_def zrange_slice_all map_loads_Inr
      split: option.splits rval.splits sum.splits)

lemma p_zrange_members:
  assumes "p_zrange env now r k 0 (- 1) = Inr vs"
  shows "v \<in> set vs \<longleftrightarrow> (\<exists>sc. (Pickled v, sc) \<in> set (zset_at now r k))"
proof -
  have "v \<in> set vs \<longleftrightarrow> Pickled v \<in> set (map Pickled vs)"
    by auto
  also have "\<dots> \<longleftrightarrow> Pickled v \<in> fst ` set (zset_at now r k)"
    using p_zrange_Inr[OF assms] by (simp add: set_zsort)
  also have "\<dots> \<longleftrightarrow> (\<exists>sc. (Pickled v, sc) \<in> set (zset_at now r k))"
    by force
  finally show ?thesis .
qed

lemma list_revoked_tokens_members:
  assumes "list_revoked_tokens env t r = (Inr revoked, r')"
  shows "v \<in> set revoked \<longleftrightarrow>
           (\<exists>sc. (Pickled v, sc) \<in> set (zset_at t r revocation_list)
                \<and> \<not> (0 \<le> sc \<and> sc \<le> t div 1000000))"
proof -
  from assms have re: "remove_expired t r revocation_list = Inr r'"
    and zr: "p_zrange env t r' revocation_list 0 (- 1) = Inr revoked"
    by (auto simp: list_revoked_tokens_def split: sum.splits)
  show ?thesis
    using p_zrange_members[OF zr] unfolding remove_expired_Inr(1)[OF re]
    by auto
qed

lemma list_revoked_tokens_total:
  assumes "r revocation_list = Some (RZSet z)" and "\<forall>p\<in>set z. \<exists>v. fst p = Pickled v"
  shows "\<exists>revoked r'. list_revoked_tokens env t r = (Inr revoked, r')"
proof -
  let ?z' = "filter (\<lambda>p. \<not> (0 \<le> snd p \<and> snd p \<le> t div 1000000)) z"
  obtain r1 where re: "remove_expired t r revocation_list = Inr r1"
    and r1: "r1 = (if ?z' = [] then r(revocation_list := None) else r(revocation_list \<mapsto> RZSet ?z'))"
    using assms(1)
    by (simp add: remove_expired_def client_zremrangebyscore_def live_def Let_def)
  have z: "zset_at t r1 revocation_list = ?z'"
    using remove_expired_Inr(1)[OF re] assms(1) by (simp add: zset_at_def live_def)
  have "\<exists>bs. client_zrange (bytes_le env) t r1 revocation_list 0 (- 1) = Inr bs
          \<and> set bs \<subseteq> fst ` set z"
    unfolding r1 by (auto simp: client_zrange_def live_def zrange_slice_all set_zsort)
  then obtain bs where bs: "client_zrange (bytes_le env) t r1 revocation_list 0 (- 1) = Inr bs"
    and sub: "set bs \<subseteq> fst ` set z"
    by blast
  have "\<forall>b\<in>set bs. \<exists>v. b = Pickled v"
    using sub assms(2) by auto
  from map_loads_total[OF this] obtain vs where "map_loads bs = Inr vs" by blast
  with bs re show ?thesis
    by (simp add: list_revoked_tokens_def p_zrange_def)
qed

lemma p_zadd_members:
  assumes "p_zadd now r k sc v = Inr r'"
  shows "\<exists>z'. r' k = Some (RZSet z') \<and> set z' \<subseteq> insert (Pickled v, sc) (set (zset_at now r k))"
  using assms
  by (auto simp: p_zadd_def client_zadd_def pickle_dumps_def zset_add_def zset_at_def
      split: option.splits rval.splits)

lemma zset_at_delete:
  "set (zset_at now (client_delete r k) k') \<subseteq> set (zset_at now r k')"
  by (auto simp: zset_at_def client_delete_def live_def split: option.splits rval.splits if_splits)

lemma field_differs_dict: "\<exists>b. field_differs (PDict d) k x = Inr b"
  by (cases x) (auto simp: field_differs_def)

lemma token_selected_True:
  assumes "token_selected tenant_id trust_id consumer_id v = Inr True"
  shows "(\<forall>s. tenant_id = Some s \<and> s \<noteq> [] \<longrightarrow> py_get v ''tenant_id'' = Inr (PStr s))"
    and "(\<forall>s. trust_id = Some s \<and> s \<noteq> [] \<longrightarrow> py_get v ''trust_id'' = Inr (PStr s))"
    and "(\<forall>s. consumer_id = Some s \<and> s \<noteq> [] \<longrightarrow>
            (\<exists>oauth. subscript_path v [''token_data'', ''token'', ''OS-OAUTH1''] = Inr oauth
                   \<and> py_get oauth ''consumer_id'' = Inr (PStr s)))"
  using assms
  by (auto simp: token_selected_def field_differs_def consumer_differs_def supplied_def
      split: sum.splits bool.splits option.splits if_splits error.splits)

lemma loop_selected:
  "list_tokens_loop env now r tenant_id trust_id consumer_id cs acc = Inr ids \<Longrightarrow>
   c \<in> set ids \<Longrightarrow>
   c \<in> set acc \<or> (c \<in> set cs \<and>
     (\<exists>v. p_get now r (get_key env ''token'' c) = Inr v \<and> truthy v
        \<and> token_selected tenant_id trust_id consumer_id v = Inr True))"
proof (induction cs arbitrary: acc)
  case Nil
  then show ?case by simp
next
  case (Cons a cs)
  then show ?case
    by (fastforce split: sum.splits if_splits bool.splits)
qed

lemma token_selected_iff:
  "token_selected tenant_id trust_id consumer_id v = Inr True \<longleftrightarrow>
     (\<forall>s. tenant_id = Some s \<and> s \<noteq> [] \<longrightarrow> py_get v ''tenant_id'' = Inr (PStr s))
   \<and> (\<forall>s. trust_id = Some s \<and> s \<noteq> [] \<longrightarrow> py_get v ''trust_id'' = Inr (PStr s))
   \<and> (\<forall>s. consumer_id = Some s \<and> s \<noteq> [] \<longrightarrow>
          (\<exists>oauth. subscript_path v [''token_data'', ''token'', ''OS-OAUTH1''] = Inr oauth
                 \<and> py_get oauth ''consumer_id'' = Inr (PStr s)))"
  (is "?l \<longleftrightarrow> ?a \<and> ?b \<and> ?c")
proof
  assume ?l
  from token_selected_True[OF this] show "?a \<and> ?b \<and> ?c" by blast
next
  assume h: "?a \<and> ?b \<and> ?c"
  have 1: "field_differs v ''tenant_id'' tenant_id = Inr False"
    using h by (cases tenant_id) (auto simp: field_differs_def)
  have 2: "field_differs v ''trust_id'' trust_id = Inr False"
    using h by (cases trust_id) (auto simp: field_differs_def)
  have 3: "consumer_differs v consumer_id = Inr False"
    using h by (cases consumer_id) (auto simp: consumer_differs_def supplied_def field_differs_def)
  show ?l
    by (simp add: token_selected_def 1 2 3)
qed

lemma token_selected_dict_False:
  assumes "(\<exists>s. tenant_id = Some s \<and> s \<noteq> [] \<and> dict_get d ''tenant_id'' \<noteq> PStr s)
         \<or> (\<exists>s. trust_id = Some s \<and> s \<noteq> [] \<and> dict_get d ''trust_id'' \<noteq> PStr s)
         \<or> (\<exists>s. consumer_id = Some s \<and> s \<noteq> []
               \<and> ((\<exists>k. subscript_path (PDict d) [''token_data'', ''token'', ''OS-OAUTH1'']
                         = Inl (KeyError k))
                  \<or> (\<exists>oauth. subscript_path (PDict d) [''token_data'', ''token'', ''OS-OAUTH1'']
                                = Inr (PDict oauth)
                             \<and> dict_get oauth ''consumer_id'' \<noteq> PStr s)))"
  shows "token_selected tenant_id trust_id consumer_id (PDict d) = Inr False"
proof -
  obtain b1 where b1: "field_differs (PDict d) ''tenant_id'' tenant_id = Inr b1"
    using field_differs_dict by blast
  obtain b2 where b2: "field_differs (PDict d) ''trust_id'' trust_id = Inr b2"
    using field_differs_dict by blast
  from assms consider
      (tenant) s where "tenant_id = Some s" "s \<noteq> []" "dict_get d ''tenant_id'' \<noteq> PStr s"
    | (trust) s where "trust_id = Some s" "s \<noteq> []" "dict_get d ''trust_id'' \<noteq> PStr s"
    | (consumer) s where "consumer_id = Some s" "s \<noteq> []"
        "(\<exists>k. subscript_path (PDict d) [''token_data'', ''token'', ''OS-OAUTH1'']
                         = Inl (KeyError k))
         \<or> (\<exists>oauth. subscript_path (PDict d) [''token_data'', ''token'', ''OS-OAUTH1'']
                                = Inr (PDict oauth)
                             \<and> dict_get oauth ''consumer_id'' \<noteq> PStr s)"
    by blast
  then show ?thesis
  proof cases
    case tenant
    then have "field_differs (PDict d) ''tenant_id'' tenant_id = Inr True"
      by (simp add: field_differs_def)
    then show ?thesis by (simp add: token_selected_def)
  next
    case trust
    then have "field_differs (PDict d) ''trust_id'' trust_id = Inr True"
      by (simp add: field_differs_def)
    then show ?thesis
      by (cases b1) (simp_all add: token_selected_def b1)
  next
    case consumer
    then have "consumer_differs (PDict d) consumer_id = Inr True"
      by (auto simp: consumer_differs_def supplied_def field_differs_def)
    then show ?thesis
      by (cases b1; cases b2) (simp_all add: token_selected_def b1 b2)
  qed
qed

lemma loop_exact:
  "list_tokens_loop env now r tenant_id trust_id consumer_id cs acc = Inr ids \<Longrightarrow>
   ids = acc @ filter (\<lambda>c. \<exists>v. p_get now r (get_key env ''token'' c) = Inr v \<and> truthy v
                        \<and> token_selected tenant_id trust_id consumer_id v = Inr True) cs"
proof (induction cs arbitrary: acc)
  case Nil
  then show ?case by simp
next
  case (Cons a cs)
  show ?case
  proof (cases "p_get now r (get_key env ''token'' a)")
    case (Inl e)
    with Cons.prems show ?thesis by simp
  next
    case (Inr v)
    show ?thesis
    proof (cases "truthy v")
      case False
      with Inr Cons.prems Cons.IH[of acc] show ?thesis by simp
    next
      case True
      show ?thesis
      proof (cases "token_selected tenant_id trust_id consumer_id v")
        case (Inl e)
        with Inr True Cons.prems show ?thesis by simp
      next
        case sel: (Inr b)
        show ?thesis
        proof (cases b)
          case True
          with sel Inr \<open>truthy v\<close> Cons.prems Cons.IH[of "acc @ [a]"] show ?thesis by simp
        next
          case False
          with sel Inr \<open>truthy v\<close> Cons.prems Cons.IH[of acc] show ?thesis by simp
        qed
      qed
    qed
  qed
qed

lemma list_tokens_InrE:
  assumes "list_tokens env now user_id tenant_id trust_id consumer_id r = (Inr ids, r')"
  obtains user_tokens where
    "remove_expired now r (get_key env ''user'' (PStr user_id)) = Inr r'"
    "p_zrange env now r' (get_key env ''user'' (PStr user_id)) 0 (- 1) = Inr user_tokens"
    "list_tokens_loop env now r' tenant_id trust_id consumer_id user_tokens [] = Inr ids"
  using assms by (auto simp: list_tokens_def Let_def split: sum.splits)

subsection \<open>Deleting\<close>

lemma delete_token_InrE:
  assumes "delete_token env now saving token_id r = (Inr (), r')"
  obtains data E where
    "get_token env now token_id r = Inr data"
    "subscript data ''expires'' = Inr (PTime E)"
    "p_zadd now (client_delete r (get_key env ''token'' (PStr token_id))) revocation_list
        (E div 1000000) data = Inr r'"
  using assms
  by (auto simp: delete_token_def Let_def client_bgsave_def
      split: sum.splits if_splits elim!: to_timestamp.elims)

lemma delete_token_not_found:
  "get_token env now token_id r = Inl e \<Longrightarrow>
   delete_token env now saving token_id r = (Inl e, r)"
  by (simp add: delete_token_def)

lemma delete_token_absent:
  "client_get now r (get_key env ''token'' (PStr token_id)) = Inr None \<Longrightarrow>
   delete_token env now saving token_id r = (Inl (TokenNotFound token_id), r)"
  by (simp add: delete_token_def get_token_def p_get_def)

text \<open>A second deletion of the same id finds nothing, for every id but \<open>revoked\<close>.\<close>

lemma delete_token_twice:
  assumes "delete_token env now saving token_id r = (Inr (), r')" and "token_id \<noteq> ''revoked''"
  shows "delete_token env t saving' token_id r' = (Inl (TokenNotFound token_id), r')"
proof -
  from assms(1) obtain data E where
    z: "p_zadd now (client_delete r (get_key env ''token'' (PStr token_id))) revocation_list
        (E div 1000000) data = Inr r'"
    by (rule delete_token_InrE)
  have "r' (get_key env ''token'' (PStr token_id)) = None"
    using p_zadd_Inr(2)[OF z, of "get_key env ''token'' (PStr token_id)"] assms(2)
    by (simp add: key_token_revoked client_delete_def)
  then have "client_get t r' (get_key env ''token'' (PStr token_id)) = Inr None"
    by (simp add: client_get_def live_def)
  then show ?thesis
    by (rule delete_token_absent)
qed

subsection \<open>Runs on the example data\<close>

lemma example_create:
  "create_token example_env 0 ''t1'' 0 ([example_token], Map.empty) =
     (Inr 1,
      [example_token, example_token @ [(''user_id'', PStr ''u1'')]],
      [''keystone:token:t1'' \<mapsto>
         RString (Pickled (PDict (example_token @ [(''user_id'', PStr ''u1'')]))) 3600000000,
       ''keystone:user:u1'' \<mapsto> RZSet [(Pickled (PStr ''t1''), 3600)]])"
  by (simp add: value_defs backend_defs create_defs example_defs Let_def)

lemma example_create_trust:
  "create_token example_env 0 ''t2'' 0 ([example_trust_token ''v3.0''], Map.empty) =
     (Inr 1,
      [example_trust_token ''v3.0'', example_trust_token ''v3.0''],
      [''keystone:token:t2'' \<mapsto>
         RString (Pickled (PDict (example_trust_token ''v3.0''))) 7200000000,
       ''keystone:user:u1'' \<mapsto> RZSet [(Pickled (PStr ''t2''), 7200)],
       ''keystone:user:u2'' \<mapsto> RZSet [(Pickled (PStr ''t2''), 7200)]])"
  by (simp add: value_defs backend_defs create_defs example_defs Let_def)

lemma example_create_trust_v2:
  "create_token example_env 0 ''t4'' 0 ([example_trust_token_v2], Map.empty) =
     (Inr 1,
      [example_trust_token_v2, example_trust_token_v2],
      [''keystone:token:t4'' \<mapsto>
         RString (Pickled (PDict example_trust_token_v2)) 7200000000,
       ''keystone:user:u1'' \<mapsto> RZSet [(Pickled (PStr ''t4''), 7200)],
       ''keystone:user:u3'' \<mapsto> RZSet [(Pickled (PStr ''t4''), 7200)]])"
  by (simp add: value_defs backend_defs create_defs example_defs Let_def)

lemma example_create_short:
  "create_token example_env 0 ''t3'' 0 ([example_short_token], Map.empty) =
     (Inr 1,
      [example_short_token, example_short_token],
      [''keystone:token:t3'' \<mapsto> RString (Pickled (PDict example_short_token)) 2000000,
       ''keystone:user:u1'' \<mapsto> RZSet [(Pickled (PStr ''t3''), 2)]])"
  by (simp add: value_defs backend_defs create_defs example_defs Let_def)

lemma example_create_unknown:
  "create_token (example_env\<lparr>trust_enabled := False\<rparr>) 0 ''t2'' 0
       ([example_trust_token ''v9''], Map.empty) =
     (Inr 1,
      [example_trust_token ''v9'', example_trust_token ''v9''],
      [''keystone:token:t2'' \<mapsto>
         RString (Pickled (PDict (example_trust_token ''v9''))) 7200000000,
       ''keystone:user:u1'' \<mapsto> RZSet [(Pickled (PStr ''t2''), 7200)]])"
  by (simp add: value_defs backend_defs create_defs example_defs Let_def)

lemma example_list_tokens:
  "list_tokens example_env 5000000 ''u1'' None None None example_index =
     (Inr [PStr ''b''],
      example_index(''keystone:user:u1'' \<mapsto> RZSet [(Pickled (PStr ''b''), 10)]))"
  by (simp add: value_defs backend_defs list_defs example_defs example_index_def Let_def)

lemma example_list_revoked:
  "list_revoked_tokens example_env 5000000 example_index =
     (Inr [PDict [(''id'', PStr ''d'')]],
      example_index(''keystone:token:revoked'' \<mapsto> RZSet [(Pickled (PDict [(''id'', PStr ''d'')]), 9)]))"
  by (simp add: value_defs backend_defs list_defs example_defs example_index_def Let_def)


lemma example_list_tokens_filtered:
  "list_tokens example_env 0 ''u1'' (Some ''p1'') None (Some ''c1'') example_filter_index
     = (Inr [PStr ''x''],
        example_filter_index(''keystone:user:u1'' \<mapsto>
          RZSet [(Pickled (PStr ''x''), 10), (Pickled (PStr ''y''), 20),
                 (Pickled (PStr ''z''), 30)]))"
  by (simp add: value_defs backend_defs list_defs example_defs example_filter_index_def Let_def)

lemma example_delete:
  "delete_token example_env 1000000 False ''t1''
     [''keystone:token:t1'' \<mapsto>
         RString (Pickled (PDict (example_token @ [(''user_id'', PStr ''u1'')]))) 3600000000,
      ''keystone:user:u1'' \<mapsto> RZSet [(Pickled (PStr ''t1''), 3600)]]
   = (Inr (),
      [''keystone:user:u1'' \<mapsto> RZSet [(Pickled (PStr ''t1''), 3600)],
       ''keystone:token:revoked'' \<mapsto>
         RZSet [(Pickled (PDict (example_token @ [(''user_id'', PStr ''u1'')])), 3600)]])"
  by (simp add: value_defs backend_defs get_token_def delete_token_def example_defs Let_def)

section \<open>Creating and reading a token\<close>

text \<open>
  C1, as stated, has the token readable until the clock passes its expiry \<open>E\<close>. The time
  to live that reaches the backend is \<^verbatim>\<open>expires - current_time\<close> cut to whole seconds: the
  example token, created at 0 s with \<open>E\<close> at 2.5 s, is stored for 2 s, and \<^verbatim>\<open>get_token\<close>
  raises \<^verbatim>\<open>TokenNotFound\<close> at 2.2 s, before \<open>E\<close>.
\<close>

theorem create_token_then_get_token_counterexample:
  "fst (create_token example_env 0 ''t3'' 0 ([example_short_token], Map.empty)) = Inr 1
   \<and> dict_get (fst (snd (create_token example_env 0 ''t3'' 0
                          ([example_short_token], Map.empty))) ! 1) ''expires'' = PTime 2500000
   \<and> (0 :: int) < 2500000 \<and> (2200000 :: int) < 2500000
   \<and> get_token example_env 2200000 ''t3''
        (snd (snd (create_token example_env 0 ''t3'' 0 ([example_short_token], Map.empty))))
      = Inl (TokenNotFound ''t3'')"
  by (simp add: example_create_short)
     (simp add: value_defs backend_defs get_token_def example_defs)

text \<open>
  C1, amended. \<^verbatim>\<open>create_token\<close> returns only when the expiry \<open>E\<close> is at least one whole
  second after the time of creation (the backend refuses a shorter time to live). The
  primary record is then stored with a time to live of the whole seconds of \<open>E\<close> minus the
  creation time, which ends at a moment \<open>D\<close> within the last second up to \<open>E\<close>. From the
  creation until the clock reaches \<open>D\<close>, \<^verbatim>\<open>get_token\<close> returns the stored dictionary,
  whose \<^verbatim>\<open>expires\<close> is \<open>E\<close>; once the clock has reached \<open>D\<close>, and so at any time after
  \<open>E\<close>, it raises \<^verbatim>\<open>TokenNotFound\<close>. The token id is not empty: \<^verbatim>\<open>get_token\<close> refuses
  the empty id before it asks the backend (line 119).
\<close>

theorem create_token_then_get_token:
  assumes "data0 < length h"
    and "create_token env now token_id data0 (h, r) = (Inr d, h', r')"
    and "token_id \<noteq> []"
    and "dict_get (h' ! d) ''expires'' = PTime E"
    and "D = now + (E - now) div 1000000 * 1000000"
  shows "1000000 \<le> E - now \<and> E - 1000000 < D \<and> D \<le> E
       \<and> r' (get_key env ''token'' (PStr token_id))
           = Some (RString (pickle_dumps (PDict (h' ! d))) D)
       \<and> (\<forall>t. now \<le> t \<and> t < D \<longrightarrow>
             get_token env t token_id r' = Inr (PDict (h' ! d))
             \<and> py_get (PDict (h' ! d)) ''expires'' = Inr (PTime E))
       \<and> (\<forall>t. D \<le> t \<longrightarrow> get_token env t token_id r' = Inl (TokenNotFound token_id))
       \<and> (\<forall>t. E < t \<longrightarrow> get_token env t token_id r' = Inl (TokenNotFound token_id))"
proof -
  from create_token_stored[OF assms(1,2)] assms(4,5)
  have pos: "0 < (E - now) div 1000000"
    and st: "r' (get_key env ''token'' (PStr token_id))
              = Some (RString (Pickled (PDict (h' ! d))) D)"
    by auto
  have b: "1000000 \<le> E - now" "E - 1000000 < D" "D \<le> E"
    using pos assms(5) by linarith+
  have tr: "truthy (PDict (h' ! d))"
    using assms(4) by (auto simp: dict_get_def)
  have g1: "get_token env t token_id r' = Inr (PDict (h' ! d))" if "t < D" for t
    using get_token_live(1)[of r' env token_id "PDict (h' ! d)" D t] st assms(3) tr that
    by simp
  have g2: "get_token env t token_id r' = Inl (TokenNotFound token_id)" if "D \<le> t" for t
    using get_token_live(2)[of r' env token_id "PDict (h' ! d)" D t] st assms(3) tr that
    by simp
  have g3: "get_token env t token_id r' = Inl (TokenNotFound token_id)" if "E < t" for t
    using g2[of t] b(3) that by simp
  show ?thesis
    using b st g1 g2 g3 assms(4) by (simp add: pickle_dumps_def)
qed

theorem create_token_then_get_token_witness:
  "get_token example_env 3599999999 ''t1''
     (snd (snd (create_token example_env 0 ''t1'' 0 ([example_token], Map.empty))))
     = Inr (PDict (example_token @ [(''user_id'', PStr ''u1'')]))
   \<and> get_token example_env 3600000000 ''t1''
     (snd (snd (create_token example_env 0 ''t1'' 0 ([example_token], Map.empty))))
     = Inl (TokenNotFound ''t1'')
   \<and> get_token example_env 3600500001 ''t1''
     (snd (snd (create_token example_env 0 ''t1'' 0 ([example_token], Map.empty))))
     = Inl (TokenNotFound ''t1'')"
proof -
  have e: "dict_get ([example_token, example_token @ [(''user_id'', PStr ''u1'')]] ! 1) ''expires''
             = PTime 3600500000"
    by (simp add: example_token_def dict_get_def)
  have "(3600000000::int) = 0 + (3600500000 - 0) div 1000000 * 1000000"
    and "''t1'' \<noteq> []" and "(0::nat) < length [example_token]"
    by simp_all
  from create_token_then_get_token[OF this(3) example_create this(2) e this(1)]
  show ?thesis
    by (simp add: example_create)
qed

section \<open>The lazy prune of the read paths\<close>

text \<open>
  C2, as stated, has the prune cover every score from minus infinity to the current
  time. \<^verbatim>\<open>_remove_expired\<close> (line 109) passes the range from 0 to the current timestamp:
  an entry with a negative score, older than any current time, is still in the index
  after \<^verbatim>\<open>list_tokens\<close> has pruned it.
\<close>

theorem remove_expired_negative_counterexample:
  "snd (list_tokens example_env 5000000 ''u1'' None None None
          [''keystone:user:u1'' \<mapsto> RZSet [(Pickled (PStr ''t0''), - 1)]]) ''keystone:user:u1''
     = Some (RZSet [(Pickled (PStr ''t0''), - 1)])
   \<and> (- 1 :: int) \<le> 5000000 div 1000000"
  by (simp add: value_defs backend_defs list_defs example_defs Let_def)

text \<open>
  C2, amended. On both read paths the prune comes before the range read and removes
  from the index key exactly the entries whose score lies between 0 and the current
  whole-second timestamp, both included. When \<^verbatim>\<open>list_tokens\<close> returns, the index holds
  the entries of before with a score outside that range, and every id returned is a
  member with such a score; when \<^verbatim>\<open>list_revoked_tokens\<close> returns, the same holds of the
  revocation list, and its result is exactly the members with such a score.
\<close>

theorem read_paths_prune_first:
  "(list_tokens env now user_id tenant_id trust_id consumer_id r = (Inr ids, r') \<longrightarrow>
      zset_at now r' (get_key env ''user'' (PStr user_id))
        = filter (\<lambda>p. \<not> (0 \<le> snd p \<and> snd p \<le> now div 1000000))
            (zset_at now r (get_key env ''user'' (PStr user_id)))
    \<and> (\<forall>c\<in>set ids. \<exists>sc. (pickle_dumps c, sc) \<in> set (zset_at now r (get_key env ''user'' (PStr user_id)))
                          \<and> \<not> (0 \<le> sc \<and> sc \<le> now div 1000000)))
   \<and> (list_revoked_tokens env now r = (Inr revoked, r') \<longrightarrow>
      zset_at now r' revocation_list
        = filter (\<lambda>p. \<not> (0 \<le> snd p \<and> snd p \<le> now div 1000000)) (zset_at now r revocation_list)
    \<and> (\<forall>c. c \<in> set revoked \<longleftrightarrow>
             (\<exists>sc. (pickle_dumps c, sc) \<in> set (zset_at now r revocation_list)
                  \<and> \<not> (0 \<le> sc \<and> sc \<le> now div 1000000))))"
proof -
  let ?keep = "\<lambda>p::bytes \<times> int. \<not> (0 \<le> snd p \<and> snd p \<le> now div 1000000)"
  let ?skey = "get_key env ''user'' (PStr user_id)"
  have a: "zset_at now r' ?skey = filter ?keep (zset_at now r ?skey)
    \<and> (\<forall>c\<in>set ids. \<exists>sc. (pickle_dumps c, sc) \<in> set (zset_at now r ?skey)
                          \<and> \<not> (0 \<le> sc \<and> sc \<le> now div 1000000))"
    if l: "list_tokens env now user_id tenant_id trust_id consumer_id r = (Inr ids, r')"
  proof -
    from l obtain user_tokens where
      re: "remove_expired now r ?skey = Inr r'"
      and zr: "p_zrange env now r' ?skey 0 (- 1) = Inr user_tokens"
      and lo: "list_tokens_loop env now r' tenant_id trust_id consumer_id user_tokens [] = Inr ids"
      by (rule list_tokens_InrE)
    have z: "zset_at now r' ?skey = filter ?keep (zset_at now r ?skey)"
      by (rule remove_expired_Inr(1)[OF re])
    have "\<exists>sc. (pickle_dumps c, sc) \<in> set (zset_at now r ?skey)
                          \<and> \<not> (0 \<le> sc \<and> sc \<le> now div 1000000)" if "c \<in> set ids" for c
    proof -
      from loop_selected[OF lo that] have "c \<in> set user_tokens" by auto
      then obtain sc where "(Pickled c, sc) \<in> set (zset_at now r' ?skey)"
        using p_zrange_members[OF zr] by blast
      then show ?thesis
        unfolding z pickle_dumps_def by auto
    qed
    with z show ?thesis by blast
  qed
  have b: "zset_at now r' revocation_list = filter ?keep (zset_at now r revocation_list)
    \<and> (\<forall>c. c \<in> set revoked \<longleftrightarrow>
             (\<exists>sc. (pickle_dumps c, sc) \<in> set (zset_at now r revocation_list)
                  \<and> \<not> (0 \<le> sc \<and> sc \<le> now div 1000000)))"
    if l: "list_revoked_tokens env now r = (Inr revoked, r')"
  proof -
    from l have re: "remove_expired now r revocation_list = Inr r'"
      and zr: "p_zrange env now r' revocation_list 0 (- 1) = Inr revoked"
      by (auto simp: list_revoked_tokens_def split: sum.splits)
    have z: "zset_at now r' revocation_list = filter ?keep (zset_at now r revocation_list)"
      by (rule remove_expired_Inr(1)[OF re])
    show ?thesis
      using p_zrange_members[OF zr] unfolding z pickle_dumps_def
      by auto
  qed
  from a b show ?thesis by blast
qed

theorem read_paths_prune_first_witness:
  "zset_at 5000000 (snd (list_tokens example_env 5000000 ''u1'' None None None example_index))
      ''keystone:user:u1'' = [(Pickled (PStr ''b''), 10)]
   \<and> zset_at 5000000 (snd (list_revoked_tokens example_env 5000000 example_index)) ''keystone:token:revoked''
      = [(Pickled (PDict [(''id'', PStr ''d'')]), 9)]"
  using read_paths_prune_first[where env = example_env and now = 5000000 and user_id = "''u1''"
        and tenant_id = None and trust_id = None and consumer_id = None and r = example_index
        and ids = "[PStr ''b'']"
        and r' = "example_index(''keystone:user:u1'' \<mapsto> RZSet [(Pickled (PStr ''b''), 10)])"]
    read_paths_prune_first[where env = example_env and now = 5000000 and r = example_index
        and revoked = "[PDict [(''id'', PStr ''d'')]]"
        and r' = "example_index(''keystone:token:revoked'' \<mapsto>
                    RZSet [(Pickled (PDict [(''id'', PStr ''d'')]), 9)])"]
  by (simp add: example_list_tokens example_list_revoked)
     (simp add: zset_at_def live_def example_index_def get_key_def py_str_def revocation_list_def)

section \<open>Index entries without a primary record\<close>



section \<open>The revocation list after a deletion\<close>

text \<open>
  C4, as stated, has the deleted token listed until its expiry passes. The score of the
  revocation entry is the whole second of the expiry, and the prune removes every score
  up to the whole second of the current time: the example token expires at 3600.5 s, is
  deleted at 1 s, and is already absent from \<^verbatim>\<open>list_revoked_tokens\<close> at 3600.2 s.
\<close>

theorem delete_token_revocation_entry_counterexample:
  "fst (delete_token example_env 1000000 False ''t1''
          (snd (snd (create_token example_env 0 ''t1'' 0 ([example_token], Map.empty))))) = Inr ()
   \<and> (3600200000 :: int) < 3600500000
   \<and> fst (list_revoked_tokens example_env 3600200000
        (snd (delete_token example_env 1000000 False ''t1''
          (snd (snd (create_token example_env 0 ''t1'' 0 ([example_token], Map.empty)))))))
      = Inr []"
  by (simp add: example_create example_delete)
     (simp add: value_defs backend_defs create_defs list_defs get_token_def delete_token_def example_defs)

text \<open>
  C4, amended. After a successful \<^verbatim>\<open>delete_token\<close> the revocation list holds exactly one
  entry for the deleted record, scored by the whole-second timestamp of the record's
  \<^verbatim>\<open>expires\<close>. Whenever \<^verbatim>\<open>list_revoked_tokens\<close> then returns, at a time \<open>t\<close>, the record is
  in its result exactly when that score is not between 0 and the whole-second timestamp
  of \<open>t\<close>: it is listed as long as the current whole second is before the whole second of
  the expiry, and, the score not being negative, absent (pruned) from then on.
  \<^verbatim>\<open>list_revoked_tokens\<close> does return, at every time, when the members of the revocation
  list before the deletion were pickles.
\<close>

theorem delete_token_revocation_entry:
  assumes "delete_token env now saving token_id r = (Inr (), r')"
  shows "\<exists>data E z.
           get_token env now token_id r = Inr data
         \<and> subscript data ''expires'' = Inr (PTime E)
         \<and> r' revocation_list = Some (RZSet z)
         \<and> filter (\<lambda>p. fst p = pickle_dumps data) z = [(pickle_dumps data, E div 1000000)]
         \<and> (\<forall>t revoked r''. list_revoked_tokens env t r' = (Inr revoked, r'') \<longrightarrow>
               (data \<in> set revoked
                  \<longleftrightarrow> \<not> (0 \<le> E div 1000000 \<and> E div 1000000 \<le> t div 1000000)))
         \<and> ((\<forall>p\<in>set (zset_at now r revocation_list). \<exists>v. fst p = pickle_dumps v) \<longrightarrow>
               (\<forall>t. \<exists>revoked r''. list_revoked_tokens env t r' = (Inr revoked, r'')))"
proof -
  from assms obtain data E where
    g: "get_token env now token_id r = Inr data"
    and e: "subscript data ''expires'' = Inr (PTime E)"
    and z: "p_zadd now (client_delete r (get_key env ''token'' (PStr token_id))) revocation_list
        (E div 1000000) data = Inr r'"
    by (rule delete_token_InrE)
  from p_zadd_Inr(1)[OF z] obtain zs where
    zs: "r' revocation_list = Some (RZSet zs)"
    and f: "filter (\<lambda>p. fst p = Pickled data) zs = [(Pickled data, E div 1000000)]"
    by blast
  have u: "(Pickled data, sc) \<in> set zs \<longleftrightarrow> sc = E div 1000000" for sc
  proof -
    have "(Pickled data, sc) \<in> set zs
            \<longleftrightarrow> (Pickled data, sc) \<in> set (filter (\<lambda>p. fst p = Pickled data) zs)"
      by simp
    then show ?thesis unfolding f by auto
  qed
  have za: "zset_at t r' revocation_list = zs" for t
    using zs by (simp add: zset_at_def live_def)
  have l: "data \<in> set revoked \<longleftrightarrow> \<not> (0 \<le> E div 1000000 \<and> E div 1000000 \<le> t div 1000000)"
    if "list_revoked_tokens env t r' = (Inr revoked, r'')" for t revoked r''
    using list_revoked_tokens_members[OF that, of data] u by (simp add: za)
  have tot: "\<exists>revoked r''. list_revoked_tokens env t r' = (Inr revoked, r'')"
    if w: "\<forall>p\<in>set (zset_at now r revocation_list). \<exists>v. fst p = pickle_dumps v" for t
  proof -
    from p_zadd_members[OF z] zs have
      "set zs \<subseteq> insert (Pickled data, E div 1000000)
         (set (zset_at now (client_delete r (get_key env ''token'' (PStr token_id))) revocation_list))"
      by simp
    with zset_at_delete[of now r "get_key env ''token'' (PStr token_id)" revocation_list]
    have "set zs \<subseteq> insert (Pickled data, E div 1000000) (set (zset_at now r revocation_list))"
      by blast
    with w have "\<forall>p\<in>set zs. \<exists>v. fst p = Pickled v"
      unfolding pickle_dumps_def by fastforce
    with zs show ?thesis
      by (rule list_revoked_tokens_total[of r' zs env t])
  qed
  from g e zs f l tot show ?thesis
    unfolding pickle_dumps_def by blast
qed

theorem delete_token_revocation_entry_witness:
  "(\<exists>z. snd (delete_token example_env 1000000 False ''t1''
             (snd (snd (create_token example_env 0 ''t1'' 0 ([example_token], Map.empty)))))
          revocation_list = Some (RZSet z)
       \<and> filter (\<lambda>p. fst p = Pickled (PDict (example_token @ [(''user_id'', PStr ''u1'')]))) z
          = [(Pickled (PDict (example_token @ [(''user_id'', PStr ''u1'')])), 3600)])
   \<and> fst (list_revoked_tokens example_env 3599999999
        (snd (delete_token example_env 1000000 False ''t1''
           (snd (snd (create_token example_env 0 ''t1'' 0 ([example_token], Map.empty)))))))
      = Inr [PDict (example_token @ [(''user_id'', PStr ''u1'')])]
   \<and> fst (list_revoked_tokens example_env 3600000000
        (snd (delete_token example_env 1000000 False ''t1''
           (snd (snd (create_token example_env 0 ''t1'' 0 ([example_token], Map.empty)))))))
      = Inr []"
proof -
  let ?d = "PDict (example_token @ [(''user_id'', PStr ''u1'')])"
  have g: "get_token example_env 1000000 ''t1''
             [''keystone:token:t1'' \<mapsto> RString (Pickled ?d) 3600000000,
              ''keystone:user:u1'' \<mapsto> RZSet [(Pickled (PStr ''t1''), 3600)]]
           = Inr ?d"
    by (simp add: value_defs backend_defs get_token_def example_defs)
  have e: "subscript ?d ''expires'' = Inr (PTime 3600500000)"
    by (simp add: example_token_def)
  have s: "snd (delete_token example_env 1000000 False ''t1''
             (snd (snd (create_token example_env 0 ''t1'' 0 ([example_token], Map.empty)))))
           = [''keystone:user:u1'' \<mapsto> RZSet [(Pickled (PStr ''t1''), 3600)],
              ''keystone:token:revoked'' \<mapsto> RZSet [(Pickled ?d, 3600)]]"
    by (simp add: example_create example_delete)
  have l: "fst (list_revoked_tokens example_env 3599999999
             [''keystone:user:u1'' \<mapsto> RZSet [(Pickled (PStr ''t1''), 3600)],
              ''keystone:token:revoked'' \<mapsto> RZSet [(Pickled ?d, 3600)]]) = Inr [?d]"
    "fst (list_revoked_tokens example_env 3600000000
             [''keystone:user:u1'' \<mapsto> RZSet [(Pickled (PStr ''t1''), 3600)],
              ''keystone:token:revoked'' \<mapsto> RZSet [(Pickled ?d, 3600)]]) = Inr []"
    by (simp_all add: value_defs backend_defs list_defs)
  from delete_token_revocation_entry[OF example_delete] g e l
  show ?thesis
    unfolding s by (auto simp: pickle_dumps_def revocation_list_def)
qed

section \<open>Deleting twice\<close>

text \<open>
  C5. Deleting an id that has no primary record raises \<^verbatim>\<open>TokenNotFound\<close> and leaves the
  backend as it was (\<open>delete_token_absent\<close>, \<open>delete_token_not_found\<close>), and a second
  deletion of an id raises \<^verbatim>\<open>TokenNotFound\<close> for every id but one (\<open>delete_token_twice\<close>).
  The id \<open>revoked\<close> is the exception: its primary key \<^verbatim>\<open>keystone:token:revoked\<close> is the
  key of the revocation list (line 79). The first deletion of the token \<open>revoked\<close> removes
  the record and puts the sorted set of revocations under that very key; the second
  deletion reads a sorted set with \<open>GET\<close> and ends with the backend's error, not with
  \<^verbatim>\<open>TokenNotFound\<close>.
\<close>

theorem delete_token_twice_revoked:
  "fst (create_token example_env 0 ''revoked'' 0 ([example_token], Map.empty)) = Inr 1
   \<and> fst (delete_token example_env 1000000 False ''revoked''
        (snd (snd (create_token example_env 0 ''revoked'' 0 ([example_token], Map.empty)))))
      = Inr ()
   \<and> fst (delete_token example_env 2000000 False ''revoked''
        (snd (delete_token example_env 1000000 False ''revoked''
          (snd (snd (create_token example_env 0 ''revoked'' 0 ([example_token], Map.empty)))))))
      = Inl ResponseError"
  by (simp add: value_defs backend_defs create_defs get_token_def delete_token_def example_defs Let_def)

section \<open>Members that are not pickles\<close>

text \<open>
  C6, as stated, has the index decode return an empty list for malformed bytes.
  \<^verbatim>\<open>_zrange\<close> (line 103) applies \<^verbatim>\<open>pickle.loads\<close> to every member and catches nothing: on
  an index whose only member is not a pickle, \<^verbatim>\<open>list_tokens\<close> raises instead of returning
  the empty list.
\<close>

theorem p_zrange_garbage_counterexample:
  "fst (list_tokens example_env 0 ''u1'' None None None example_corrupt_index) = Inl UnpicklingError
   \<and> fst (list_tokens example_env 0 ''u1'' None None None example_corrupt_index) \<noteq> Inr []"
  by (simp add: value_defs backend_defs list_defs example_defs example_corrupt_index_def Let_def)

text \<open>
  C6, amended. \<^verbatim>\<open>_zrange\<close> unpickles every member the range read returns: its result is
  the list of the decoded values, in order, exactly when every member is the pickle of
  a value; when a member is not a well-formed pickle it raises the unpickling error, and
  \<^verbatim>\<open>list_tokens\<close> over such an index raises it too, after the prune.
\<close>

theorem p_zrange_decodes:
  assumes "client_zrange (bytes_le env) now r key start stop = Inr bs"
  shows "(p_zrange env now r key start stop = Inr vs \<longleftrightarrow> bs = map pickle_dumps vs)
       \<and> ((\<exists>s. Garbage s \<in> set bs) \<longrightarrow> p_zrange env now r key start stop = Inl UnpicklingError)
       \<and> ((\<exists>s. Garbage s \<in> set bs) \<and> start = 0 \<and> stop = - 1
            \<and> key = get_key env ''user'' (PStr user_id) \<and> remove_expired now r0 key = Inr r
          \<longrightarrow> list_tokens env now user_id tenant_id trust_id consumer_id r0
                = (Inl UnpicklingError, r))"
proof -
  have 1: "p_zrange env now r key start stop = Inr vs \<longleftrightarrow> bs = map pickle_dumps vs"
    using assms map_loads_Inr[of bs vs]
    by (simp add: p_zrange_def pickle_dumps_def[abs_def])
  have 2: "p_zrange env now r key start stop = Inl UnpicklingError" if "\<exists>s. Garbage s \<in> set bs"
    using assms that map_loads_garbage by (auto simp: p_zrange_def)
  have 3: "list_tokens env now user_id tenant_id trust_id consumer_id r0
                = (Inl UnpicklingError, r)"
    if "\<exists>s. Garbage s \<in> set bs" "start = 0" "stop = - 1"
      "key = get_key env ''user'' (PStr user_id)" "remove_expired now r0 key = Inr r"
    using 2[OF that(1)] that(2-5) by (simp add: list_tokens_def)
  from 1 2 3 show ?thesis by blast
qed

theorem p_zrange_decodes_witness:
  "p_zrange example_env 0 example_corrupt_index ''keystone:user:u1'' 0 (- 1) = Inl UnpicklingError
   \<and> p_zrange example_env 5000000 example_index ''keystone:user:u1'' 0 (- 1) = Inr [PStr ''a'', PStr ''b'']"
proof -
  have a: "client_zrange (bytes_le example_env) 0 example_corrupt_index ''keystone:user:u1'' 0 (- 1) = Inr [Garbage ''invalid'']"
    by (simp add: value_defs backend_defs example_corrupt_index_def Let_def)
  have b: "client_zrange (bytes_le example_env) 5000000 example_index ''keystone:user:u1'' 0 (- 1)
             = Inr [Pickled (PStr ''a''), Pickled (PStr ''b'')]"
    by (simp add: value_defs backend_defs example_index_def Let_def)
  from p_zrange_decodes[OF a] p_zrange_decodes[OF b, of "[PStr ''a'', PStr ''b'']"]
  show ?thesis
    by (simp add: pickle_dumps_def)
qed

section \<open>The trustee's index entry\<close>

text \<open>
  C7. When trust support is enabled and the data carries a trust id and a token version
  that is V2 or V3, a call of \<^verbatim>\<open>create_token\<close> that returns has registered the token id
  under the index key of the trustee that the payload names, which is
  \<^verbatim>\<open>token_data['access']['trust']['trustee_user_id']\<close> for V2 and
  \<^verbatim>\<open>token_data['OS-TRUST:trust']['trustee_user_id']\<close> for V3, with the same score as the
  entry under the owner's index key: the whole-second timestamp of the expiry, which is
  the payload's \<^verbatim>\<open>expires\<close> or the default. The owner is the payload's \<^verbatim>\<open>user_id\<close> when
  that is truthy, and \<^verbatim>\<open>user['id']\<close> otherwise.
\<close>

theorem create_token_indexes_trustee:
  assumes "data0 < length h"
    and "create_token env now token_id data0 (h, r) = (Inr d, h', r')"
    and "trust_enabled env"
    and "truthy (dict_get (h ! data0) ''trust_id'')"
    and "dict_get (h ! data0) ''token_version'' = PStr (V2 env)
         \<or> dict_get (h ! data0) ''token_version'' = PStr (V3 env)"
  shows "\<exists>token_data trustee owner E zo zt.
           map_of (h ! data0) ''token_data'' = Some token_data
         \<and> (if dict_get (h ! data0) ''token_version'' = PStr (V2 env)
            then subscript_path token_data [''access'', ''trust'', ''trustee_user_id'']
            else subscript_path token_data [''OS-TRUST:trust'', ''trustee_user_id''])
           = Inr trustee
         \<and> (if truthy (dict_get (h ! data0) ''user_id'')
            then owner = dict_get (h ! data0) ''user_id''
            else subscript_path (PDict (h ! data0)) [''user'', ''id''] = Inr owner)
         \<and> snd (dict_setdefault (h ! data0) ''expires'' (default_expire_time env)) = PTime E
         \<and> r' (get_key env ''user'' owner) = Some (RZSet zo)
         \<and> (pickle_dumps (PStr token_id), E div 1000000) \<in> set zo
         \<and> r' (get_key env ''user'' trustee) = Some (RZSet zt)
         \<and> (pickle_dumps (PStr token_id), E div 1000000) \<in> set zt"
proof -
  from assms(2,1) obtain d2 d3 E r1 r2 where
    sd: "dict_setdefault (h ! data0) ''expires'' (default_expire_time env) = (d2, PTime E)"
    and su: "set_user_id d2 = Inr d3"
    and z: "p_zadd now r1 (get_key env ''user'' (dict_get d3 ''user_id'')) (E div 1000000)
        (PStr token_id) = Inr r2"
    and t: "index_trustee env now d3 (E div 1000000) token_id r2 = Inr r'"
    by (rule create_token_InrE)
  have d2: "d2 = fst (dict_setdefault (h ! data0) ''expires'' (default_expire_time env))"
    using sd by simp
  have g2: "dict_get d2 k = dict_get (h ! data0) k" if "k \<noteq> ''expires''" for k
    using that unfolding d2 by (simp add: dict_get_setdefault)
  have m2: "map_of d2 k = map_of (h ! data0) k" if "k \<noteq> ''expires''" for k
    using that unfolding d2 by (simp add: map_of_setdefault)
  have g3: "dict_get d3 k = dict_get (h ! data0) k" if "k \<noteq> ''expires''" "k \<noteq> ''user_id''" for k
    using that set_user_id_get[OF su, of k] g2[of k] by simp
  have m3: "map_of d3 k = map_of (h ! data0) k" if "k \<noteq> ''expires''" "k \<noteq> ''user_id''" for k
    using that set_user_id_map_of[OF su, of k] m2[of k] by simp
  have tr: "truthy (dict_get d3 ''trust_id'')"
    using assms(4) g3[of "''trust_id''"] by simp
  from t tr assms(3) obtain trustee where
    to: "trustee_of env d3 = Inr trustee"
    and zt: "p_zadd now r2 (get_key env ''user'' trustee) (E div 1000000) (PStr token_id) = Inr r'"
    by (auto simp: index_trustee_def split: sum.splits)
  from trustee_of_Inr[OF to] obtain token_data where
    td: "map_of (h ! data0) ''token_data'' = Some token_data"
    and tp: "(if dict_get (h ! data0) ''token_version'' = PStr (V2 env)
            then subscript_path token_data [''access'', ''trust'', ''trustee_user_id'']
            else subscript_path token_data [''OS-TRUST:trust'', ''trustee_user_id''])
           = Inr trustee"
    using m3[of "''token_data''"] g3[of "''token_version''"] by auto
  have ow: "if truthy (dict_get (h ! data0) ''user_id'')
            then dict_get d3 ''user_id'' = dict_get (h ! data0) ''user_id''
            else subscript_path (PDict (h ! data0)) [''user'', ''id''] = Inr (dict_get d3 ''user_id'')"
    using set_user_id_owner[OF su] g2[of "''user_id''"] m2[of "''user''"]
    by (simp split: if_splits)
  from p_zadd_Inr(1)[OF z] obtain zo where
    o: "r2 (get_key env ''user'' (dict_get d3 ''user_id'')) = Some (RZSet zo)"
       "(Pickled (PStr token_id), E div 1000000) \<in> set zo"
    by blast
  from p_zadd_keeps[OF zt o] obtain zo' where
    o': "r' (get_key env ''user'' (dict_get d3 ''user_id'')) = Some (RZSet zo')"
       "(Pickled (PStr token_id), E div 1000000) \<in> set zo'"
    by blast
  from p_zadd_Inr(1)[OF zt] obtain zt' where
    t': "r' (get_key env ''user'' trustee) = Some (RZSet zt')"
       "(Pickled (PStr token_id), E div 1000000) \<in> set zt'"
    by blast
  have e: "snd (dict_setdefault (h ! data0) ''expires'' (default_expire_time env)) = PTime E"
    using sd by simp
  show ?thesis
    unfolding pickle_dumps_def
    apply (rule exI[of _ token_data], rule exI[of _ trustee])
    apply (rule exI[of _ "dict_get d3 ''user_id''"], rule exI[of _ E])
    apply (rule exI[of _ zo'], rule exI[of _ zt'])
    using td tp ow e o' t' by (simp split: if_splits)
qed

theorem create_token_indexes_trustee_witness:
  "(\<exists>zo zt. snd (snd (create_token example_env 0 ''t2'' 0
                       ([example_trust_token ''v3.0''], Map.empty)))
             ''keystone:user:u1'' = Some (RZSet zo)
         \<and> (Pickled (PStr ''t2''), 7200) \<in> set zo
         \<and> snd (snd (create_token example_env 0 ''t2'' 0
                       ([example_trust_token ''v3.0''], Map.empty)))
             ''keystone:user:u2'' = Some (RZSet zt)
         \<and> (Pickled (PStr ''t2''), 7200) \<in> set zt)
   \<and> (\<exists>zo zt. snd (snd (create_token example_env 0 ''t4'' 0
                       ([example_trust_token_v2], Map.empty)))
             ''keystone:user:u1'' = Some (RZSet zo)
         \<and> (Pickled (PStr ''t4''), 7200) \<in> set zo
         \<and> snd (snd (create_token example_env 0 ''t4'' 0
                       ([example_trust_token_v2], Map.empty)))
             ''keystone:user:u3'' = Some (RZSet zt)
         \<and> (Pickled (PStr ''t4''), 7200) \<in> set zt)"
proof -
  have v3: "(0::nat) < length [example_trust_token ''v3.0'']"
    "trust_enabled example_env"
    "truthy (dict_get ([example_trust_token ''v3.0''] ! 0) ''trust_id'')"
    "dict_get ([example_trust_token ''v3.0''] ! 0) ''token_version'' = PStr (V2 example_env)
     \<or> dict_get ([example_trust_token ''v3.0''] ! 0) ''token_version'' = PStr (V3 example_env)"
    by (simp_all add: example_defs dict_get_def)
  have v2: "(0::nat) < length [example_trust_token_v2]"
    "truthy (dict_get ([example_trust_token_v2] ! 0) ''trust_id'')"
    "dict_get ([example_trust_token_v2] ! 0) ''token_version'' = PStr (V2 example_env)
     \<or> dict_get ([example_trust_token_v2] ! 0) ''token_version'' = PStr (V3 example_env)"
    by (simp_all add: example_defs dict_get_def)
  have a: "\<exists>zo zt.
      [''keystone:token:t2'' \<mapsto>
         RString (Pickled (PDict (example_trust_token ''v3.0''))) 7200000000,
       ''keystone:user:u1'' \<mapsto> RZSet [(Pickled (PStr ''t2''), 7200)],
       ''keystone:user:u2'' \<mapsto> RZSet [(Pickled (PStr ''t2''), 7200)]] ''keystone:user:u1''
        = Some (RZSet zo)
    \<and> (Pickled (PStr ''t2''), 7200) \<in> set zo
    \<and> [''keystone:token:t2'' \<mapsto>
         RString (Pickled (PDict (example_trust_token ''v3.0''))) 7200000000,
       ''keystone:user:u1'' \<mapsto> RZSet [(Pickled (PStr ''t2''), 7200)],
       ''keystone:user:u2'' \<mapsto> RZSet [(Pickled (PStr ''t2''), 7200)]] ''keystone:user:u2''
        = Some (RZSet zt)
    \<and> (Pickled (PStr ''t2''), 7200) \<in> set zt"
    using create_token_indexes_trustee[OF v3(1) example_create_trust v3(2,3,4)]
    by (simp add: example_defs value_defs)
  have b: "\<exists>zo zt.
      [''keystone:token:t4'' \<mapsto>
         RString (Pickled (PDict example_trust_token_v2)) 7200000000,
       ''keystone:user:u1'' \<mapsto> RZSet [(Pickled (PStr ''t4''), 7200)],
       ''keystone:user:u3'' \<mapsto> RZSet [(Pickled (PStr ''t4''), 7200)]] ''keystone:user:u1''
        = Some (RZSet zo)
    \<and> (Pickled (PStr ''t4''), 7200) \<in> set zo
    \<and> [''keystone:token:t4'' \<mapsto>
         RString (Pickled (PDict example_trust_token_v2)) 7200000000,
       ''keystone:user:u1'' \<mapsto> RZSet [(Pickled (PStr ''t4''), 7200)],
       ''keystone:user:u3'' \<mapsto> RZSet [(Pickled (PStr ''t4''), 7200)]] ''keystone:user:u3''
        = Some (RZSet zt)
    \<and> (Pickled (PStr ''t4''), 7200) \<in> set zt"
    using create_token_indexes_trustee[OF v2(1) example_create_trust_v2 v3(2) v2(2,3)]
    by (simp add: example_defs value_defs)
  from a b show ?thesis
    by (simp only: example_create_trust example_create_trust_v2 snd_conv) 
qed

section \<open>An unknown token version\<close>

text \<open>
  C8, as stated, asks for \<^verbatim>\<open>UnexpectedError\<close>. The exception raised at line 160 is
  \<^verbatim>\<open>token.provider.UnsupportedTokenVersionException\<close>: on the example payload with the
  version \<open>v9\<close> the call ends with that exception and not with \<^verbatim>\<open>UnexpectedError\<close>.
\<close>

theorem create_token_unknown_version_counterexample:
  "fst (create_token example_env 0 ''t2'' 0 ([example_trust_token ''v9''], Map.empty))
     = Inl (UnsupportedTokenVersionException (PStr ''v9''))
   \<and> fst (create_token example_env 0 ''t2'' 0 ([example_trust_token ''v9''], Map.empty))
     \<noteq> Inl UnexpectedError"
  by (simp add: value_defs backend_defs create_defs example_defs Let_def)

text \<open>
  C8, amended. With trust support enabled, a truthy trust id, \<^verbatim>\<open>token_data\<close> and
  \<^verbatim>\<open>token_version\<close> present and the version neither V2 nor V3, \<^verbatim>\<open>create_token\<close>
  never returns; and whenever the same call with trust support disabled would have
  returned, the call raises \<^verbatim>\<open>UnsupportedTokenVersionException\<close> for that version and
  leaves the heap and the backend exactly as the call with trust support disabled does:
  the primary record and the owner's index entry are written and stay.
\<close>

theorem create_token_unknown_version:
  assumes "data0 < length h"
    and "trust_enabled env"
    and "truthy (dict_get (h ! data0) ''trust_id'')"
    and "map_of (h ! data0) ''token_data'' = Some td"
    and "map_of (h ! data0) ''token_version'' = Some ver"
    and "ver \<noteq> PStr (V2 env)" and "ver \<noteq> PStr (V3 env)"
  shows "(\<forall>d. fst (create_token env now token_id data0 (h, r)) \<noteq> Inr d)
       \<and> (\<forall>d h' r'.
            create_token (env\<lparr>trust_enabled := False\<rparr>) now token_id data0 (h, r) = (Inr d, h', r')
            \<longrightarrow> create_token env now token_id data0 (h, r)
                  = (Inl (UnsupportedTokenVersionException ver), h', r'))"
proof -
  let ?d2 = "fst (dict_setdefault (h ! data0) ''expires'' (default_expire_time env))"
  have m2: "map_of ?d2 ''token_data'' = Some td" "map_of ?d2 ''token_version'' = Some ver"
    "dict_get ?d2 ''trust_id'' = dict_get (h ! data0) ''trust_id''"
    using assms(4,5) by (simp_all add: map_of_setdefault dict_get_setdefault)
  have tf: "index_trustee env now d3 sc token_id r2 = Inl (UnsupportedTokenVersionException ver)"
    if "set_user_id ?d2 = Inr d3" for d3 sc r2
  proof -
    have "map_of d3 ''token_data'' = Some td" "map_of d3 ''token_version'' = Some ver"
      "dict_get d3 ''trust_id'' = dict_get (h ! data0) ''trust_id''"
      using m2 set_user_id_map_of[OF that] set_user_id_get[OF that] by simp_all
    then show ?thesis
      using assms(2,3,6,7) by (simp add: index_trustee_def trustee_of_def dict_get_def)
  qed
  have a: "\<forall>d. fst (create_token env now token_id data0 (h, r)) \<noteq> Inr d"
    using assms(1) tf
    by (auto simp: create_token_def deepcopy_def Let_def nth_append split: sum.splits prod.splits)
  have b: "create_token env now token_id data0 (h, r)
                  = (Inl (UnsupportedTokenVersionException ver), h', r')"
    if "create_token (env\<lparr>trust_enabled := False\<rparr>) now token_id data0 (h, r) = (Inr d, h', r')"
    for d h' r'
    using that assms(1) tf
    by (auto simp: create_token_def deepcopy_def Let_def nth_append index_trustee_def
        split: sum.splits prod.splits)
  from a b show ?thesis by blast
qed

theorem create_token_unknown_version_witness:
  "create_token example_env 0 ''t2'' 0 ([example_trust_token ''v9''], Map.empty) =
     (Inl (UnsupportedTokenVersionException (PStr ''v9'')),
      [example_trust_token ''v9'', example_trust_token ''v9''],
      [''keystone:token:t2'' \<mapsto>
         RString (Pickled (PDict (example_trust_token ''v9''))) 7200000000,
       ''keystone:user:u1'' \<mapsto> RZSet [(Pickled (PStr ''t2''), 7200)]])"
proof -
  have "(0::nat) < length [example_trust_token ''v9'']"
    and "trust_enabled example_env"
    and "truthy (dict_get ([example_trust_token ''v9''] ! 0) ''trust_id'')"
    and "map_of ([example_trust_token ''v9''] ! 0) ''token_data''
           = Some (PDict [(''OS-TRUST:trust'', PDict [(''trustee_user_id'', PStr ''u2'')])])"
    and "map_of ([example_trust_token ''v9''] ! 0) ''token_version'' = Some (PStr ''v9'')"
    and "PStr ''v9'' \<noteq> PStr (V2 example_env)"
    and "PStr ''v9'' \<noteq> PStr (V3 example_env)"
    by (simp_all add: example_defs dict_get_def)
  from create_token_unknown_version[OF this, of 0 "''t2''" Map.empty] example_create_unknown
  show ?thesis
    by blast
qed

section \<open>The filters of \<^verbatim>\<open>list_tokens\<close>\<close>

text \<open>
  C9. \<^verbatim>\<open>list_tokens\<close> applies each supplied filter by exact match. When it returns, its
  result is, in index order, exactly the candidates of the pruned index whose primary
  record is present and truthy and matches every supplied filter: \<^verbatim>\<open>tenant_id\<close> equals
  the tenant filter, \<^verbatim>\<open>trust_id\<close> equals the trust filter, and
  \<^verbatim>\<open>token_data.token.OS-OAUTH1.consumer_id\<close> exists and equals the consumer filter. So a
  candidate that differs in a supplied filter is excluded and a candidate that matches is
  returned. A candidate whose record, a dictionary, differs in the supplied tenant or trust
  filter, or, for a supplied consumer filter, lacks a key on the path to the OAuth
  structure or has another consumer id, is skipped: the loop goes on with the remaining
  candidates and the same result list, and raises nothing for it.
\<close>

theorem list_tokens_filters:
  "(list_tokens env now user_id tenant_id trust_id consumer_id r = (Inr ids, r') \<longrightarrow>
      (\<exists>user_tokens.
          p_zrange env now r' (get_key env ''user'' (PStr user_id)) 0 (- 1) = Inr user_tokens
        \<and> ids = filter (\<lambda>c. \<exists>v.
              p_get now r' (get_key env ''token'' c) = Inr v \<and> truthy v
            \<and> (\<forall>s. tenant_id = Some s \<and> s \<noteq> [] \<longrightarrow> py_get v ''tenant_id'' = Inr (PStr s))
            \<and> (\<forall>s. trust_id = Some s \<and> s \<noteq> [] \<longrightarrow> py_get v ''trust_id'' = Inr (PStr s))
            \<and> (\<forall>s. consumer_id = Some s \<and> s \<noteq> [] \<longrightarrow>
                  (\<exists>oauth. subscript_path v [''token_data'', ''token'', ''OS-OAUTH1'']
                             = Inr oauth
                         \<and> py_get oauth ''consumer_id'' = Inr (PStr s))))
            user_tokens))
   \<and> (p_get now r1 (get_key env ''token'' c) = Inr (PDict d)
        \<and> ((\<exists>s. tenant_id = Some s \<and> s \<noteq> [] \<and> dict_get d ''tenant_id'' \<noteq> PStr s)
         \<or> (\<exists>s. trust_id = Some s \<and> s \<noteq> [] \<and> dict_get d ''trust_id'' \<noteq> PStr s)
         \<or> (\<exists>s. consumer_id = Some s \<and> s \<noteq> []
               \<and> ((\<exists>k. subscript_path (PDict d) [''token_data'', ''token'', ''OS-OAUTH1'']
                         = Inl (KeyError k))
                  \<or> (\<exists>oauth. subscript_path (PDict d) [''token_data'', ''token'', ''OS-OAUTH1'']
                                = Inr (PDict oauth)
                             \<and> dict_get oauth ''consumer_id'' \<noteq> PStr s))))
      \<longrightarrow> list_tokens_loop env now r1 tenant_id trust_id consumer_id (c # cs) acc
            = list_tokens_loop env now r1 tenant_id trust_id consumer_id cs acc)"
proof -
  have a: "\<exists>user_tokens.
          p_zrange env now r' (get_key env ''user'' (PStr user_id)) 0 (- 1) = Inr user_tokens
        \<and> ids = filter (\<lambda>c. \<exists>v.
              p_get now r' (get_key env ''token'' c) = Inr v \<and> truthy v
            \<and> (\<forall>s. tenant_id = Some s \<and> s \<noteq> [] \<longrightarrow> py_get v ''tenant_id'' = Inr (PStr s))
            \<and> (\<forall>s. trust_id = Some s \<and> s \<noteq> [] \<longrightarrow> py_get v ''trust_id'' = Inr (PStr s))
            \<and> (\<forall>s. consumer_id = Some s \<and> s \<noteq> [] \<longrightarrow>
                  (\<exists>oauth. subscript_path v [''token_data'', ''token'', ''OS-OAUTH1'']
                             = Inr oauth
                         \<and> py_get oauth ''consumer_id'' = Inr (PStr s))))
            user_tokens"
    if l: "list_tokens env now user_id tenant_id trust_id consumer_id r = (Inr ids, r')"
  proof -
    from l obtain user_tokens where
      zr: "p_zrange env now r' (get_key env ''user'' (PStr user_id)) 0 (- 1) = Inr user_tokens"
      and lo: "list_tokens_loop env now r' tenant_id trust_id consumer_id user_tokens [] = Inr ids"
      by (rule list_tokens_InrE)
    from loop_exact[OF lo] zr show ?thesis
      unfolding token_selected_iff by auto
  qed
  have b: "list_tokens_loop env now r1 tenant_id trust_id consumer_id (c # cs) acc
            = list_tokens_loop env now r1 tenant_id trust_id consumer_id cs acc"
    if g: "p_get now r1 (get_key env ''token'' c) = Inr (PDict d)"
      and f: "(\<exists>s. tenant_id = Some s \<and> s \<noteq> [] \<and> dict_get d ''tenant_id'' \<noteq> PStr s)
         \<or> (\<exists>s. trust_id = Some s \<and> s \<noteq> [] \<and> dict_get d ''trust_id'' \<noteq> PStr s)
         \<or> (\<exists>s. consumer_id = Some s \<and> s \<noteq> []
               \<and> ((\<exists>k. subscript_path (PDict d) [''token_data'', ''token'', ''OS-OAUTH1'']
                         = Inl (KeyError k))
                  \<or> (\<exists>oauth. subscript_path (PDict d) [''token_data'', ''token'', ''OS-OAUTH1'']
                                = Inr (PDict oauth)
                             \<and> dict_get oauth ''consumer_id'' \<noteq> PStr s)))"
    using g token_selected_dict_False[OF f] by simp
  from a b show ?thesis by blast
qed

theorem list_tokens_filters_witness:
  "fst (list_tokens example_env 0 ''u1'' (Some ''p1'') None (Some ''c1'') example_filter_index)
     = Inr [PStr ''x'']
   \<and> (\<exists>v. p_get 0 example_filter_index ''keystone:token:x'' = Inr v
        \<and> py_get v ''tenant_id'' = Inr (PStr ''p1'')
        \<and> (\<exists>oauth. subscript_path v [''token_data'', ''token'', ''OS-OAUTH1''] = Inr oauth
                     \<and> py_get oauth ''consumer_id'' = Inr (PStr ''c1'')))
   \<and> list_tokens_loop example_env 0 example_filter_index (Some ''p1'') None (Some ''c1'')
        [PStr ''y'', PStr ''z''] [PStr ''x'']
     = list_tokens_loop example_env 0 example_filter_index (Some ''p1'') None (Some ''c1'')
        [PStr ''z''] [PStr ''x'']"
proof -
  let ?r' = "example_filter_index(''keystone:user:u1'' \<mapsto>
          RZSet [(Pickled (PStr ''x''), 10), (Pickled (PStr ''y''), 20),
                 (Pickled (PStr ''z''), 30)])"
  have a: "p_get 0 example_filter_index (get_key example_env ''token'' (PStr ''y''))
             = Inr (PDict [(''tenant_id'', PStr ''p1'')])"
    by (simp add: value_defs backend_defs example_filter_index_def)
  have b: "subscript_path (PDict [(''tenant_id'', PStr ''p1'')])
             [''token_data'', ''token'', ''OS-OAUTH1''] = Inl (KeyError ''token_data'')"
    by simp
  from list_tokens_filters[where env = example_env and now = 0 and user_id = "''u1''"
      and tenant_id = "Some ''p1''" and trust_id = None and consumer_id = "Some ''c1''"
      and r = example_filter_index and ids = "[PStr ''x'']" and r' = ?r'
      and ?r1.0 = example_filter_index and c = "PStr ''y''" and cs = "[PStr ''z'']"
      and acc = "[PStr ''x'']" and d = "[(''tenant_id'', PStr ''p1'')]"]
    example_list_tokens_filtered a b
  have skip: "list_tokens_loop example_env 0 example_filter_index (Some ''p1'') None (Some ''c1'')
        [PStr ''y'', PStr ''z''] [PStr ''x'']
     = list_tokens_loop example_env 0 example_filter_index (Some ''p1'') None (Some ''c1'')
        [PStr ''z''] [PStr ''x'']"
    by simp
  have px: "p_get 0 example_filter_index ''keystone:token:x''
             = Inr (PDict [(''tenant_id'', PStr ''p1''),
                 (''token_data'', PDict [(''token'', PDict [(''OS-OAUTH1'',
                     PDict [(''consumer_id'', PStr ''c1'')])])])])"
    by (simp add: value_defs backend_defs example_filter_index_def)
  from skip px show ?thesis
    by (simp add: example_list_tokens_filtered dict_get_def)
qed

section \<open>The caller's dictionary\<close>

text \<open>
  C10. \<^verbatim>\<open>create_token\<close> never writes the caller's dictionary: whatever the call does,
  return or raise, the object behind the caller's reference, and every other object that
  existed before the call, is unchanged. What is returned is a reference to a new object,
  and that object is what the primary record holds.
\<close>

theorem create_token_keeps_argument:
  assumes "data0 < length h"
    and "create_token env now token_id data0 (h, r) = (res, h', r')"
  shows "h' ! data0 = h ! data0
       \<and> (\<forall>a<length h. h' ! a = h ! a)
       \<and> (\<forall>d. res = Inr d \<longrightarrow> d = length h \<and> d \<noteq> data0
              \<and> (\<exists>E. r' (get_key env ''token'' (PStr token_id))
                        = Some (RString (pickle_dumps (PDict (h' ! d))) E)))"
proof -
  have fr: "\<forall>a<length h. h' ! a = h ! a"
    using create_token_frame[of _ h env now token_id data0 r] assms(2) by simp
  have "d = length h \<and> d \<noteq> data0
        \<and> (\<exists>E. r' (get_key env ''token'' (PStr token_id))
                  = Some (RString (pickle_dumps (PDict (h' ! d))) E))" if "res = Inr d" for d
  proof -
    from that assms(2) have c: "create_token env now token_id data0 (h, r) = (Inr d, h', r')"
      by simp
    from create_token_InrE[OF c assms(1)] have "d = length h" by metis
    with create_token_stored[OF assms(1) c] assms(1) show ?thesis
      by (auto simp: pickle_dumps_def)
  qed
  with fr assms(1) show ?thesis by blast
qed

theorem create_token_keeps_argument_witness:
  "fst (snd (create_token example_env 0 ''t1'' 0 ([example_token], Map.empty))) ! 0 = example_token
   \<and> fst (create_token example_env 0 ''t1'' 0 ([example_token], Map.empty)) = Inr 1"
  using create_token_keeps_argument[OF _ example_create]
  by (simp add: example_create)

end
